theory Spec2Isabelle
  imports Main "HOL-Library.Sublist"
begin

section \<open>The world around the script\<close>

text \<open>
  \<^verbatim>\<open>vcpkg_caching.py\<close> reads the process environment, looks at the file system, runs
  external programs and prints shell statements. Everything outside the script is a
  parameter of the model: a \<open>world\<close> holds the environment, the platform name and the
  answers of the file system, of the search path and of every external program. The
  answers may depend on what the script has done so far (a bootstrap script may install
  the runtime, a \<open>sources add\<close> may make the following \<open>sources update\<close> succeed), so
  each of them takes the events that happened before it.

  A \<open>pathlib.Path\<close> is kept symbolic: \<open>Path s\<close> is the object built from the string
  \<open>s\<close>, \<open>Div p s\<close> is \<open>p / s\<close>. How such an object is rendered as text is pathlib's
  business, and \<open>path_str\<close> of the world stands for it.

  Text is a \<open>string\<close>, the list of the bytes of its UTF-8 encoding.
\<close>

datatype path = Path string | Div path string

datatype arg = Str string | PathArg path

datatype command = Command (argv: "arg list") (cwd: path)

text \<open>
  What running a command gives: the exit status and the text the command wrote on its
  standard output, or no process at all (the executable cannot be started; Python raises
  an \<open>OSError\<close> then). The text is the output as Python has decoded it; output that is
  not UTF-8 is outside the model.
\<close>

datatype proc_result = Exited int string | NotStarted

text \<open>
  What the script itself does, in order: a line on the diagnostic stream, a line on
  standard output, a command it starts. (What a started command writes is the command's
  business; all but the \<open>fetch\<close> call send it to the diagnostic stream.)
\<close>

datatype event = Stderr string | Stdout string | Exec command

record world =
  environ :: "string \<rightharpoonup> string"
  platform :: string
  path_exists :: "event list \<Rightarrow> path \<Rightarrow> bool"
  which :: "event list \<Rightarrow> string \<Rightarrow> string option"
  exec :: "event list \<Rightarrow> command \<Rightarrow> proc_result"
  path_str :: "path \<Rightarrow> string"

section \<open>Programs: state, exceptions, sequencing\<close>

text \<open>
  The script's own state is the dictionary \<open>export_env\<close> (insertion-ordered, so an
  association list) and the events so far. An exception ends the run: \<open>SystemExit\<close> is
  what \<open>exit(1)\<close> raises, the others are the ones the calls of the script can raise and
  that nothing in the script catches.
\<close>

datatype exn =
    SystemExit int
  | CalledProcessError int command
  | IndexError
  | KeyError string
  | OSError

record state =
  trace :: "event list"
  export_env :: "(string \<times> string) list"

type_synonym 'a prog = "state \<Rightarrow> (exn + 'a) \<times> state"

definition return_prog :: "'a \<Rightarrow> 'a prog" where
  "return_prog a = (\<lambda>s. (Inr a, s))"

definition raise_prog :: "exn \<Rightarrow> 'a prog" where
  "raise_prog e = (\<lambda>s. (Inl e, s))"

definition bind_prog :: "'a prog \<Rightarrow> ('a \<Rightarrow> 'b prog) \<Rightarrow> 'b prog" where
  "bind_prog m f = (\<lambda>s. case m s of (Inl e, s') \<Rightarrow> (Inl e, s') | (Inr a, s') \<Rightarrow> f a s')"

definition emit :: "event \<Rightarrow> unit prog" where
  "emit ev = (\<lambda>s. (Inr (), s\<lparr>trace := trace s @ [ev]\<rparr>))"

definition init :: state where
  "init = \<lparr>trace = [], export_env = []\<rparr>"

text \<open>The exit status of the interpreter: 0 on return, the code of \<open>SystemExit\<close>, 1 after
  any other uncaught exception.\<close>

fun exit_code :: "exn + 'a \<Rightarrow> int" where
  "exit_code (Inr _) = 0"
| "exit_code (Inl (SystemExit n)) = n"
| "exit_code (Inl _) = 1"

fun stdout_of :: "event list \<Rightarrow> string list" where
  "stdout_of [] = []"
| "stdout_of (Stdout l # evs) = l # stdout_of evs"
| "stdout_of (_ # evs) = stdout_of evs"

fun stderr_of :: "event list \<Rightarrow> string list" where
  "stderr_of [] = []"
| "stderr_of (Stderr l # evs) = l # stderr_of evs"
| "stderr_of (_ # evs) = stderr_of evs"

fun commands_of :: "event list \<Rightarrow> command list" where
  "commands_of [] = []"
| "commands_of (Exec c # evs) = c # commands_of evs"
| "commands_of (_ # evs) = commands_of evs"

section \<open>The library calls the script makes\<close>

text \<open>Python's truth value of \<open>environ.get(k)\<close>: \<open>None\<close> and the empty string are false.\<close>

fun truthy :: "string option \<Rightarrow> bool" where
  "truthy None = False"
| "truthy (Some v) = (v \<noteq> [])"

definition print_stdout :: "string \<Rightarrow> unit prog" where
  "print_stdout l = emit (Stdout l)"

definition print_stderr :: "string \<Rightarrow> unit prog" where
  "print_stderr l = emit (Stderr l)"

definition exists_path :: "world \<Rightarrow> path \<Rightarrow> bool prog" where
  "exists_path w p = (\<lambda>s. (Inr (path_exists w (trace s) p), s))"

definition shutil_which :: "world \<Rightarrow> string \<Rightarrow> string option prog" where
  "shutil_which w name = (\<lambda>s. (Inr (which w (trace s) name), s))"

text \<open>\<open>subprocess.run\<close> without \<open>check\<close>: the exit status is returned, whatever it is.\<close>

definition subprocess_run :: "world \<Rightarrow> command \<Rightarrow> (int \<times> string) prog" where
  "subprocess_run w c =
     (\<lambda>s. case exec w (trace s) c of
             NotStarted \<Rightarrow> (Inl OSError, s\<lparr>trace := trace s @ [Exec c]\<rparr>)
           | Exited rc out \<Rightarrow> (Inr (rc, out), s\<lparr>trace := trace s @ [Exec c]\<rparr>))"

text \<open>\<open>subprocess.check_call\<close>: a non-zero exit status raises \<open>CalledProcessError\<close>.\<close>

definition check_call :: "world \<Rightarrow> command \<Rightarrow> unit prog" where
  "check_call w c =
     bind_prog (subprocess_run w c) (\<lambda>(rc, out).
       if rc \<noteq> 0 then raise_prog (CalledProcessError rc c) else return_prog ())"

text \<open>\<open>subprocess.check_output\<close>: as \<open>check_call\<close>, and the captured output is returned.\<close>

definition check_output :: "world \<Rightarrow> command \<Rightarrow> string prog" where
  "check_output w c =
     bind_prog (subprocess_run w c) (\<lambda>(rc, out).
       if rc \<noteq> 0 then raise_prog (CalledProcessError rc c) else return_prog out)"

text \<open>
  \<open>str.splitlines\<close>: the text is cut at every line boundary, the boundaries are dropped,
  and a boundary at the very end opens no further line. The boundaries are line feed,
  carriage return (with a following line feed as one), vertical tab, form feed, the file,
  group and record separators, and NEL, LINE SEPARATOR and PARAGRAPH SEPARATOR, which
  are the byte sequences \<open>C2 85\<close>, \<open>E2 80 A8\<close> and \<open>E2 80 A9\<close> in UTF-8.
\<close>

definition is_linebreak :: "char \<Rightarrow> bool" where
  "is_linebreak c \<longleftrightarrow>
     c \<in> {CHR 0x0A, CHR 0x0D, CHR 0x0B, CHR 0x0C, CHR 0x1C, CHR 0x1D, CHR 0x1E}"

fun splitlines_from :: "string \<Rightarrow> string \<Rightarrow> string list" where
  "splitlines_from cur [] = (if cur = [] then [] else [rev cur])"
| "splitlines_from cur (c # cs) =
     (if c = CHR 0x0D \<and> take 1 cs = [CHR 0x0A] then rev cur # splitlines_from [] (drop 1 cs)
      else if is_linebreak c then rev cur # splitlines_from [] cs
      else if c = CHR 0xC2 \<and> take 1 cs = [CHR 0x85] then rev cur # splitlines_from [] (drop 1 cs)
      else if c = CHR 0xE2 \<and> (take 2 cs = [CHR 0x80, CHR 0xA8] \<or> take 2 cs = [CHR 0x80, CHR 0xA9])
        then rev cur # splitlines_from [] (drop 2 cs)
      else splitlines_from (c # cur) cs)"

definition splitlines :: "string \<Rightarrow> string list" where
  "splitlines text = splitlines_from [] text"

text \<open>The dictionary \<open>export_env\<close>: an assignment replaces the value of a key that is there
  and keeps its place, a new key goes to the end; reading a missing key raises.\<close>

fun dict_set :: "string \<Rightarrow> string \<Rightarrow> (string \<times> string) list \<Rightarrow> (string \<times> string) list" where
  "dict_set k v [] = [(k, v)]"
| "dict_set k v ((k', v') # kvs) =
     (if k' = k then (k, v) # kvs else (k', v') # dict_set k v kvs)"

definition export_set :: "string \<Rightarrow> string \<Rightarrow> unit prog" where
  "export_set k v = (\<lambda>s. (Inr (), s\<lparr>export_env := dict_set k v (export_env s)\<rparr>))"

definition export_get :: "string \<Rightarrow> string prog" where
  "export_get k =
     (\<lambda>s. case map_of (export_env s) k of None \<Rightarrow> (Inl (KeyError k), s) | Some v \<Rightarrow> (Inr v, s))"

section \<open>The script\<close>

subsection \<open>\<open>fail\<close> (lines 10-24)\<close>

definition fail :: "world \<Rightarrow> string \<Rightarrow> 'a prog" where
  "fail w msg =
     bind_prog (print_stderr msg) (\<lambda>_.
     bind_prog (if ''CI'' \<in> dom (environ w) then print_stdout ''exit 1''
                else print_stdout ''return 1'') (\<lambda>_.
     raise_prog (SystemExit 1)))"

text \<open>The shell statement \<open>fail\<close> prints, for the statements of the theorems below.\<close>

definition fail_statement :: "world \<Rightarrow> string" where
  "fail_statement w = (if ''CI'' \<in> dom (environ w) then ''exit 1'' else ''return 1'')"

subsection \<open>\<open>print_export_variables\<close> (lines 27-37)\<close>

text \<open>The line printed for one entry: \<^verbatim>\<open>$env:VAR = 'VAL'\<close> on Windows,
  \<^verbatim>\<open>export VAR='VAL'\<close> elsewhere.\<close>

definition export_line :: "world \<Rightarrow> string \<Rightarrow> string \<Rightarrow> string" where
  "export_line w var val =
     (if platform w = ''win32''
      then ''$env:'' @ var @ '' = '' @ [CHR 0x27] @ val @ [CHR 0x27]
      else ''export '' @ var @ ''='' @ [CHR 0x27] @ val @ [CHR 0x27])"

fun print_export_variables :: "world \<Rightarrow> (string \<times> string) list \<Rightarrow> unit prog" where
  "print_export_variables w [] = return_prog ()"
| "print_export_variables w ((var, val) # rest) =
     bind_prog (print_stdout (export_line w var val)) (\<lambda>_. print_export_variables w rest)"

subsection \<open>\<open>main\<close> (lines 40-147), in the order of the source\<close>

text \<open>The texts of the script, named once.\<close>

definition msg_root :: string where
  "msg_root =
     ''Please set 'VCPKG_ROOT' environment variable to vcpkg root directory''"

definition msg_mono :: string where
  "msg_mono =
     ''Please install 'mono' .NET framework runtime''"

definition msg_user :: string where
  "msg_user =
     ''Please set 'VCPKG_NUGET_USER' to your GitHub username''"

definition msg_token :: string where
  "msg_token =
     ''Please set 'VCPKG_NUGET_TOKEN' to your GitHub PAT with read/write package privileges''"

definition msg_owner :: string where
  "msg_owner =
     ''Please specify 'VCPKG_PRIMARY_NUGET_OWNER' to the primary GitHub owner from which to download pre-built binaries''"

definition msg_same_feed :: string where
  "msg_same_feed =
     ''Not using primary NuGet feed because it is same as 'GitHub' feed.''"

definition binary_sources :: string where
  "binary_sources =
     ''clear;nuget,GitHub,readwrite;nugettimeout,3601''"

definition exe_suffix :: "world \<Rightarrow> string" where
  "exe_suffix w = (if platform w = ''win32'' then ''.exe'' else '''')"

definition script_suffix :: "world \<Rightarrow> string" where
  "script_suffix w = (if platform w = ''win32'' then ''.bat'' else ''.sh'')"

text \<open>Lines 46-53: the root directory, from \<open>VCPKG_ROOT\<close> or from its fallback.\<close>

definition main_root :: "world \<Rightarrow> path prog" where
  "main_root w =
     (case environ w ''VCPKG_ROOT'' of
        Some v \<Rightarrow> return_prog (Path v)
      | None \<Rightarrow>
         (case environ w ''VCPKG_INSTALLATION_ROOT'' of
            Some f \<Rightarrow>
              bind_prog (export_set ''VCPKG_ROOT'' f) (\<lambda>_.
              bind_prog (export_get ''VCPKG_ROOT'') (\<lambda>r.
              return_prog (Path r)))
          | None \<Rightarrow>
              fail w msg_root))"

text \<open>Lines 55-60: the executable, bootstrapped when it is not there.\<close>

definition main_bootstrap :: "world \<Rightarrow> path \<Rightarrow> path prog" where
  "main_bootstrap w vcpkg_root =
     (let vcpkg_exe = Div vcpkg_root (''vcpkg'' @ exe_suffix w) in
      bind_prog (exists_path w vcpkg_exe) (\<lambda>there.
      if \<not> there then
        (let bootstrap = Div vcpkg_root (''bootstrap-vcpkg'' @ script_suffix w) in
         bind_prog (exists_path w bootstrap) (\<lambda>script_there.
         bind_prog
           (if \<not> script_there
            then fail w (''VCPKG_ROOT ('' @ path_str w vcpkg_root @
                         '') does not contain bootstrap script'')
            else return_prog ()) (\<lambda>_.
         bind_prog (check_call w (Command [PathArg bootstrap] vcpkg_root)) (\<lambda>_.
         return_prog vcpkg_exe))))
      else return_prog vcpkg_exe))"

text \<open>Lines 62-67: the runtime in front of the NuGet client, except on Windows.\<close>

definition main_runtime :: "world \<Rightarrow> arg list prog" where
  "main_runtime w =
     (if platform w \<noteq> ''win32'' then
        bind_prog (shutil_which w ''mono'') (\<lambda>found.
        if \<not> truthy found then fail w msg_mono
        else return_prog ([] @ [Str ''mono'']))
      else return_prog [])"

text \<open>Lines 69-72: the NuGet client is the last line of what \<open>vcpkg fetch nuget\<close> prints.\<close>

definition fetch_command :: "path \<Rightarrow> path \<Rightarrow> command" where
  "fetch_command vcpkg_root vcpkg_exe =
     Command [PathArg vcpkg_exe, Str ''fetch'', Str ''nuget''] vcpkg_root"

definition main_fetch :: "world \<Rightarrow> path \<Rightarrow> path \<Rightarrow> arg list \<Rightarrow> arg list prog" where
  "main_fetch w vcpkg_root vcpkg_exe nuget =
     bind_prog (check_output w (fetch_command vcpkg_root vcpkg_exe)) (\<lambda>out.
     case splitlines out of
       [] \<Rightarrow> raise_prog IndexError
     | l # ls \<Rightarrow> return_prog (nuget @ [Str (last (l # ls))]))"

text \<open>Lines 74-81: user name and token.\<close>

definition main_credentials :: "world \<Rightarrow> (string \<times> string) prog" where
  "main_credentials w =
     (case environ w ''VCPKG_NUGET_USER'' of
        None \<Rightarrow> fail w msg_user
      | Some nuget_user \<Rightarrow>
         if nuget_user = [] then fail w msg_user
         else
          (case environ w ''VCPKG_NUGET_TOKEN'' of
             None \<Rightarrow> fail w msg_token
           | Some nuget_token \<Rightarrow>
              if nuget_token = []
              then fail w msg_token
              else return_prog (nuget_user, nuget_token)))"

text \<open>Lines 83-109: the feed of the user, registered for reading and writing.\<close>

definition feed_url :: "string \<Rightarrow> string" where
  "feed_url owner = ''https://nuget.pkg.github.com/'' @ owner @ ''/index.json''"

definition sources_command ::
  "arg list \<Rightarrow> string \<Rightarrow> string \<Rightarrow> string \<Rightarrow> string \<Rightarrow> string \<Rightarrow> path \<Rightarrow> command" where
  "sources_command nuget verb url name user password vcpkg_root =
     Command (nuget @ [Str ''sources'', Str verb,
                       Str ''-source'', Str url,
                       Str ''-storepasswordincleartext'',
                       Str ''-name'', Str name,
                       Str ''-username'', Str user,
                       Str ''-password'', Str password]) vcpkg_root"

definition setapikey_command :: "arg list \<Rightarrow> string \<Rightarrow> string \<Rightarrow> path \<Rightarrow> command" where
  "setapikey_command nuget token url vcpkg_root =
     Command (nuget @ [Str ''setapikey'', Str token, Str ''-source'', Str url]) vcpkg_root"

definition main_primary_feed ::
  "world \<Rightarrow> path \<Rightarrow> arg list \<Rightarrow> string \<Rightarrow> string \<Rightarrow> unit prog" where
  "main_primary_feed w vcpkg_root nuget nuget_user nuget_token =
     bind_prog (export_set ''VCPKG_BINARY_SOURCES''
                  binary_sources) (\<lambda>_.
     let nuget_url = feed_url nuget_user in
     bind_prog (subprocess_run w
        (sources_command nuget ''add'' nuget_url ''GitHub'' nuget_user nuget_token vcpkg_root)) (\<lambda>_.
     bind_prog (check_call w
        (sources_command nuget ''update'' nuget_url ''GitHub'' nuget_user nuget_token vcpkg_root)) (\<lambda>_.
     check_call w (setapikey_command nuget nuget_token nuget_url vcpkg_root))))"

text \<open>Lines 111-145: the read-only feed of another owner, when a token for it is given.\<close>

definition main_secondary_feed :: "world \<Rightarrow> path \<Rightarrow> arg list \<Rightarrow> string \<Rightarrow> unit prog" where
  "main_secondary_feed w vcpkg_root nuget nuget_user =
     (case environ w ''VCPKG_PRIMARY_NUGET_TOKEN'' of
        None \<Rightarrow> return_prog ()
      | Some primary_token \<Rightarrow>
         if primary_token = [] then return_prog ()
         else
          (case environ w ''VCPKG_PRIMARY_NUGET_OWNER'' of
             None \<Rightarrow> fail w msg_owner
           | Some primary_owner \<Rightarrow>
              if primary_owner = []
              then fail w msg_owner
              else if primary_owner = nuget_user
              then print_stderr msg_same_feed
              else
               (let primary_url = feed_url primary_owner in
                bind_prog (subprocess_run w
                   (sources_command nuget ''add'' primary_url primary_owner nuget_user primary_token vcpkg_root)) (\<lambda>_.
                bind_prog (check_call w
                   (sources_command nuget ''update'' primary_url primary_owner nuget_user primary_token vcpkg_root)) (\<lambda>_.
                bind_prog (export_get ''VCPKG_BINARY_SOURCES'') (\<lambda>sources.
                export_set ''VCPKG_BINARY_SOURCES''
                  (sources @ '';nuget,'' @ primary_owner @ '',read'')))))))"

text \<open>Line 147, and the whole of \<open>main\<close>.\<close>

definition main_print :: "world \<Rightarrow> unit prog" where
  "main_print w = (\<lambda>s. print_export_variables w (export_env s) s)"

text \<open>Lines 41-72 together give the root directory and the NuGet command line.\<close>

definition main_tools :: "world \<Rightarrow> (path \<times> arg list) prog" where
  "main_tools w =
     bind_prog (main_root w) (\<lambda>vcpkg_root.
     bind_prog (main_bootstrap w vcpkg_root) (\<lambda>vcpkg_exe.
     bind_prog (main_runtime w) (\<lambda>runtime.
     bind_prog (main_fetch w vcpkg_root vcpkg_exe runtime) (\<lambda>nuget.
     return_prog (vcpkg_root, nuget)))))"

definition main :: "world \<Rightarrow> unit prog" where
  "main w =
     bind_prog (main_tools w) (\<lambda>(vcpkg_root, nuget).
     bind_prog (main_credentials w) (\<lambda>(nuget_user, nuget_token).
     bind_prog (main_primary_feed w vcpkg_root nuget nuget_user nuget_token) (\<lambda>_.
     bind_prog (main_secondary_feed w vcpkg_root nuget nuget_user) (\<lambda>_.
     main_print w))))"

section \<open>Concrete worlds\<close>

text \<open>
  A Linux machine on which everything works: the root directory is set and holds the
  executable, the runtime is on the search path, every command exits with status 0 and
  prints the path of the NuGet client. The other worlds differ from it in one respect
  each.
\<close>

fun render :: "path \<Rightarrow> string" where
  "render (Path p) = p"
| "render (Div p name) = render p @ ''/'' @ name"

definition nuget_path_line :: string where
  "nuget_path_line = ''/opt/vcpkg/downloads/tools/nuget.exe'' @ [CHR 0x0A]"

definition w_linux :: world where
  "w_linux =
     \<lparr>environ = [''VCPKG_ROOT'' \<mapsto> ''/opt/vcpkg'',
                 ''VCPKG_NUGET_USER'' \<mapsto> ''alice'',
                 ''VCPKG_NUGET_TOKEN'' \<mapsto> ''t0k''],
      platform = ''linux'',
      path_exists = (\<lambda>h p. True),
      which = (\<lambda>h name. Some ''/usr/bin/mono''),
      exec = (\<lambda>h c. Exited 0 nuget_path_line),
      path_str = render\<rparr>"

definition w_update_fails :: world where
  "w_update_fails =
     w_linux\<lparr>exec := (\<lambda>h c. if Str ''update'' \<in> set (argv c) then Exited 1 []
                              else Exited 0 nuget_path_line)\<rparr>"

definition w_no_root :: world where
  "w_no_root = w_linux\<lparr>environ := Map.empty\<rparr>"

definition w_empty_fetch :: world where
  "w_empty_fetch = w_linux\<lparr>exec := (\<lambda>h c. Exited 0 [])\<rparr>"

definition nuget_linux :: "arg list" where
  "nuget_linux = [Str ''mono'', Str ''/opt/vcpkg/downloads/tools/nuget.exe'']"

definition w_empty_root :: world where
  "w_empty_root = w_linux\<lparr>environ := (environ w_linux)(''VCPKG_ROOT'' \<mapsto> [])\<rparr>"

definition w_fallback :: world where
  "w_fallback =
     w_linux\<lparr>environ := [''VCPKG_INSTALLATION_ROOT'' \<mapsto> ''/usr/local/share/vcpkg'',
                          ''VCPKG_NUGET_USER'' \<mapsto> ''alice'',
                          ''VCPKG_NUGET_TOKEN'' \<mapsto> ''t0k'']\<rparr>"

definition w_other_owner :: world where
  "w_other_owner =
     w_linux\<lparr>environ := (environ w_linux)(''VCPKG_PRIMARY_NUGET_TOKEN'' \<mapsto> ''t1k'',
                                             ''VCPKG_PRIMARY_NUGET_OWNER'' \<mapsto> ''bob'')\<rparr>"

definition after_primary :: state where
  "after_primary = init\<lparr>export_env := [(''VCPKG_BINARY_SOURCES'', binary_sources)]\<rparr>"

definition w_no_mono :: world where
  "w_no_mono = w_linux\<lparr>which := (\<lambda>h name. None)\<rparr>"

definition w_add_fails :: world where
  "w_add_fails =
     w_linux\<lparr>exec := (\<lambda>h c. if Str ''add'' \<in> set (argv c) then Exited 1 []
                           else Exited 0 nuget_path_line)\<rparr>"

definition w_no_user :: world where
  "w_no_user =
     w_linux\<lparr>environ := [''VCPKG_ROOT'' \<mapsto> ''/opt/vcpkg'',
                          ''VCPKG_NUGET_TOKEN'' \<mapsto> ''t0k'']\<rparr>"

definition w_no_token :: world where
  "w_no_token =
     w_linux\<lparr>environ := [''VCPKG_ROOT'' \<mapsto> ''/opt/vcpkg'',
                          ''VCPKG_NUGET_USER'' \<mapsto> ''alice'']\<rparr>"

definition w_no_owner :: world where
  "w_no_owner =
     w_linux\<lparr>environ := (environ w_linux)(''VCPKG_PRIMARY_NUGET_TOKEN'' \<mapsto> ''t1k'')\<rparr>"

definition w_same_owner :: world where
  "w_same_owner =
     w_linux\<lparr>environ := (environ w_linux)(''VCPKG_PRIMARY_NUGET_TOKEN'' \<mapsto> ''t1k'',
                                             ''VCPKG_PRIMARY_NUGET_OWNER'' \<mapsto> ''alice'')\<rparr>"

definition w_same_owner_no_token :: world where
  "w_same_owner_no_token =
     w_linux\<lparr>environ := (environ w_linux)(''VCPKG_PRIMARY_NUGET_OWNER'' \<mapsto> ''alice'')\<rparr>"

text \<open>The state of the run on the Linux machine after line 72, and after line 109.\<close>

definition after_fetch :: state where
  "after_fetch =
     init\<lparr>trace := [Exec (fetch_command (Path ''/opt/vcpkg'')
                                 (Div (Path ''/opt/vcpkg'') ''vcpkg''))]\<rparr>"

definition after_setapikey :: state where
  "after_setapikey =
     \<lparr>trace =
        [Exec (fetch_command (Path ''/opt/vcpkg'') (Div (Path ''/opt/vcpkg'') ''vcpkg'')),
         Exec (sources_command nuget_linux ''add'' (feed_url ''alice'') ''GitHub''
                 ''alice'' ''t0k'' (Path ''/opt/vcpkg'')),
         Exec (sources_command nuget_linux ''update'' (feed_url ''alice'') ''GitHub''
                 ''alice'' ''t0k'' (Path ''/opt/vcpkg'')),
         Exec (setapikey_command nuget_linux ''t0k'' (feed_url ''alice'') (Path ''/opt/vcpkg''))],
      export_env = [(''VCPKG_BINARY_SOURCES'', binary_sources)]\<rparr>"

definition w_no_bootstrap :: world where
  "w_no_bootstrap = w_linux\<lparr>path_exists := (\<lambda>h p. False)\<rparr>"

section \<open>How a run can end\<close>

text \<open>
  \<open>ending_ok w final evs r\<close>: the events \<open>evs\<close> of a piece of the script fit its result
  \<open>r\<close>. After \<open>SystemExit\<close> the code is 1 and the last two events are the diagnostic and
  the shell statement of \<open>fail\<close>; after \<open>CalledProcessError\<close> the status is not 0 and the
  last event is the command; and nothing else is printed on standard output, except by
  the final piece (\<open>final\<close>) when it returns.
\<close>

definition ending_ok :: "world \<Rightarrow> bool \<Rightarrow> event list \<Rightarrow> exn + 'a \<Rightarrow> bool" where
  "ending_ok w final evs r =
     (case r of
        Inr _ \<Rightarrow> final \<or> stdout_of evs = []
      | Inl (SystemExit n) \<Rightarrow>
          n = 1 \<and>
          (\<exists>pre msg. evs = pre @ [Stderr msg, Stdout (fail_statement w)] \<and> stdout_of pre = [])
      | Inl (CalledProcessError rc c) \<Rightarrow>
          rc \<noteq> 0 \<and> stdout_of evs = [] \<and> (\<exists>pre. evs = pre @ [Exec c])
      | Inl _ \<Rightarrow> stdout_of evs = [])"

definition framed :: "world \<Rightarrow> bool \<Rightarrow> 'a prog \<Rightarrow> bool" where
  "framed w final m \<longleftrightarrow>
     (\<forall>s. \<exists>evs. trace (snd (m s)) = trace s @ evs \<and> ending_ok w final evs (fst (m s)))"

text \<open>
  \<open>under_root root c\<close>: the command \<open>c\<close> runs in the directory \<open>root\<close>, and every path
  among its arguments is a file of that directory.
\<close>

definition under_root :: "path \<Rightarrow> command \<Rightarrow> bool" where
  "under_root root c \<longleftrightarrow>
     cwd c = root \<and>
     list_all (\<lambda>a. case a of PathArg p \<Rightarrow> (\<exists>name. p = Div root name) | Str _ \<Rightarrow> True)
       (argv c)"

text \<open>
  \<open>confined P K m\<close>: every command the piece \<open>m\<close> starts satisfies \<open>P\<close>, and \<open>m\<close>
  leaves the entries of \<open>export_env\<close> under the keys \<open>K\<close> as they are, however it ends.
\<close>

definition confined :: "(command \<Rightarrow> bool) \<Rightarrow> string set \<Rightarrow> 'a prog \<Rightarrow> bool" where
  "confined P K m \<longleftrightarrow>
     (\<forall>s. (\<exists>evs. trace (snd (m s)) = trace s @ evs \<and> list_all P (commands_of evs)) \<and>
          (\<forall>k\<in>K. map_of (export_env (snd (m s))) k = map_of (export_env s) k))"

section \<open>Sequencing and the library calls\<close>

lemma bind_prog_Inl: "m s = (Inl e, s1) \<Longrightarrow> bind_prog m f s = (Inl e, s1)"
  by (simp add: bind_prog_def)

lemma bind_prog_Inr: "m s = (Inr a, s1) \<Longrightarrow> bind_prog m f s = f a s1"
  by (simp add: bind_prog_def)

lemma bind_prog_returns:
  "bind_prog m f s = (Inr b, s2) \<longleftrightarrow> (\<exists>a s1. m s = (Inr a, s1) \<and> f a s1 = (Inr b, s2))"
  by (auto simp: bind_prog_def split: prod.splits sum.splits)

lemma stdout_of_append: "stdout_of (xs @ ys) = stdout_of xs @ stdout_of ys"
  by (induction xs rule: stdout_of.induct) simp_all

lemma stderr_of_append: "stderr_of (xs @ ys) = stderr_of xs @ stderr_of ys"
  by (induction xs rule: stderr_of.induct) simp_all

lemma commands_of_append: "commands_of (xs @ ys) = commands_of xs @ commands_of ys"
  by (induction xs rule: commands_of.induct) simp_all

lemma fail_apply:
  "fail w msg s =
     (Inl (SystemExit 1), s\<lparr>trace := trace s @ [Stderr msg, Stdout (fail_statement w)]\<rparr>)"
  by (simp add: fail_def fail_statement_def bind_prog_def print_stderr_def print_stdout_def
      emit_def raise_prog_def)

lemma print_export_variables_apply:
  "print_export_variables w env s =
     (Inr (), s\<lparr>trace := trace s @ map (\<lambda>(k, v). Stdout (export_line w k v)) env\<rparr>)"
  by (induction env arbitrary: s)
     (auto simp: return_prog_def bind_prog_def print_stdout_def emit_def)

section \<open>Every piece of the script ends in one of the known ways\<close>

lemma ending_ok_append:
  assumes "stdout_of evs1 = []" and "ending_ok w final evs2 r"
  shows "ending_ok w final (evs1 @ evs2) r"
proof (cases r)
  case (Inr a)
  with assms show ?thesis by (auto simp: ending_ok_def stdout_of_append)
next
  case (Inl e)
  show ?thesis
  proof (cases e)
    case (SystemExit n)
    with Inl assms obtain pre msg where
      n: "n = 1" and e: "evs2 = pre @ [Stderr msg, Stdout (fail_statement w)]"
      and q: "stdout_of pre = []"
      by (auto simp: ending_ok_def)
    have "evs1 @ evs2 = (evs1 @ pre) @ [Stderr msg, Stdout (fail_statement w)]"
      using e by simp
    moreover have "stdout_of (evs1 @ pre) = []"
      using assms(1) q by (simp add: stdout_of_append)
    ultimately show ?thesis
      using Inl SystemExit n unfolding ending_ok_def by (simp del: append_assoc)
  next
    case (CalledProcessError rc c)
    with Inl assms obtain pre where
      rc: "rc \<noteq> 0" and q: "stdout_of evs2 = []" and e: "evs2 = pre @ [Exec c]"
      by (auto simp: ending_ok_def)
    have "\<exists>pre'. evs1 @ evs2 = pre' @ [Exec c]" using e by simp
    moreover have "stdout_of (evs1 @ evs2) = []"
      using assms(1) q by (simp add: stdout_of_append)
    ultimately show ?thesis
      using Inl CalledProcessError rc unfolding ending_ok_def by simp
  qed (use Inl assms in \<open>simp_all add: ending_ok_def stdout_of_append\<close>)
qed

lemma framed_bind:
  assumes m: "framed w False m" and f: "\<And>a. framed w final (f a)"
  shows "framed w final (bind_prog m f)"
  unfolding framed_def
proof
  fix s
  from m obtain evs1 where t1: "trace (snd (m s)) = trace s @ evs1"
    and e1: "ending_ok w False evs1 (fst (m s))"
    unfolding framed_def by blast
  show "\<exists>evs. trace (snd (bind_prog m f s)) = trace s @ evs \<and>
          ending_ok w final evs (fst (bind_prog m f s))"
  proof (cases "m s")
    case (Pair r s1)
    show ?thesis
    proof (cases r)
      case (Inl e)
      with Pair have "bind_prog m f s = (Inl e, s1)" by (simp add: bind_prog_Inl)
      with Pair Inl t1 e1 show ?thesis by (cases e) (auto simp: ending_ok_def)
    next
      case (Inr a)
      with Pair have b: "bind_prog m f s = f a s1" by (simp add: bind_prog_Inr)
      from f[of a] obtain evs2 where t2: "trace (snd (f a s1)) = trace s1 @ evs2"
        and e2: "ending_ok w final evs2 (fst (f a s1))"
        unfolding framed_def by blast
      from Pair Inr e1 have q: "stdout_of evs1 = []" by (simp add: ending_ok_def)
      from Pair t1 t2 have "trace (snd (f a s1)) = trace s @ (evs1 @ evs2)" by simp
      with b ending_ok_append[OF q e2] show ?thesis by metis
    qed
  qed
qed

named_theorems framed_intros

lemma framed_return [framed_intros]: "framed w final (return_prog a)"
  by (simp add: framed_def ending_ok_def return_prog_def)

lemma framed_fail [framed_intros]: "framed w final (fail w msg)"
  by (simp add: framed_def ending_ok_def fail_apply)

lemma framed_print_stderr [framed_intros]: "framed w final (print_stderr l)"
  by (simp add: framed_def ending_ok_def print_stderr_def emit_def)

lemma framed_exists_path [framed_intros]: "framed w final (exists_path w p)"
  by (simp add: framed_def ending_ok_def exists_path_def)

lemma framed_shutil_which [framed_intros]: "framed w final (shutil_which w n)"
  by (simp add: framed_def ending_ok_def shutil_which_def)

lemma framed_export_set [framed_intros]: "framed w final (export_set k v)"
  by (simp add: framed_def ending_ok_def export_set_def)

lemma framed_export_get [framed_intros]: "framed w final (export_get k)"
  by (simp add: framed_def ending_ok_def export_get_def split: option.split)

lemma framed_IndexError [framed_intros]: "framed w final (raise_prog IndexError)"
  by (simp add: framed_def ending_ok_def raise_prog_def)

lemma framed_subprocess_run [framed_intros]: "framed w final (subprocess_run w c)"
  by (simp add: framed_def ending_ok_def subprocess_run_def split: proc_result.split)

lemma framed_check_call [framed_intros]: "framed w final (check_call w c)"
  by (simp add: framed_def ending_ok_def check_call_def subprocess_run_def bind_prog_def
      raise_prog_def return_prog_def split: proc_result.split)

lemma framed_check_output [framed_intros]: "framed w final (check_output w c)"
  by (simp add: framed_def ending_ok_def check_output_def subprocess_run_def bind_prog_def
      raise_prog_def return_prog_def split: proc_result.split)

lemma framed_main_print: "framed w True (main_print w)"
  by (simp add: framed_def ending_ok_def main_print_def print_export_variables_apply)

lemma framed_main_root: "framed w final (main_root w)"
  unfolding main_root_def
  by (auto split: option.split intro!: framed_bind framed_intros)

lemma framed_main_bootstrap: "framed w final (main_bootstrap w root)"
  unfolding main_bootstrap_def Let_def
  by (auto intro!: framed_bind framed_intros)

lemma framed_main_runtime: "framed w final (main_runtime w)"
  unfolding main_runtime_def
  by (auto intro!: framed_bind framed_intros)

lemma framed_main_fetch: "framed w final (main_fetch w root exe nuget)"
  unfolding main_fetch_def
  by (auto split: list.split intro!: framed_bind framed_intros)

lemma framed_main_credentials: "framed w final (main_credentials w)"
  unfolding main_credentials_def
  by (auto split: option.split intro!: framed_bind framed_intros)

lemma framed_main_primary_feed: "framed w final (main_primary_feed w root nuget u t)"
  unfolding main_primary_feed_def Let_def
  by (auto intro!: framed_bind framed_intros)

lemma framed_main_secondary_feed: "framed w final (main_secondary_feed w root nuget u)"
  unfolding main_secondary_feed_def Let_def
  by (auto split: option.split intro!: framed_bind framed_intros)

lemma framed_main_tools: "framed w final (main_tools w)"
  unfolding main_tools_def
  by (intro framed_bind framed_return framed_main_root framed_main_bootstrap
      framed_main_runtime framed_main_fetch)

lemma framed_main: "framed w True (main w)"
  unfolding main_def
  by (auto split: prod.split
      intro!: framed_bind framed_main_tools framed_main_credentials framed_main_primary_feed
        framed_main_secondary_feed framed_main_print)

lemma main_ending:
  assumes "main w init = (r, s)"
  shows "ending_ok w True (trace s) r"
proof -
  from framed_main[of w] obtain evs where
    "trace (snd (main w init)) = trace init @ evs" and "ending_ok w True evs (fst (main w init))"
    unfolding framed_def by blast
  with assms show ?thesis by (simp add: init_def)
qed

section \<open>What the pieces of \<open>main\<close> do when they return\<close>

lemma map_of_dict_set:
  "map_of (dict_set k v kvs) k' = (if k' = k then Some v else map_of kvs k')"
  by (induction kvs) auto

lemma stdout_of_export_lines:
  "stdout_of (map (\<lambda>(k, v). Stdout (f k v)) env) = map (\<lambda>(k, v). f k v) env"
  by (induction env) auto

lemma framed_returns:
  assumes "framed w False m" and "m s = (Inr a, s')"
  shows "\<exists>evs. trace s' = trace s @ evs \<and> stdout_of evs = []"
  using assms unfolding framed_def ending_ok_def
  by (metis (mono_tags, lifting) fst_conv snd_conv sum.simps(6))

lemma main_root_apply:
  "main_root w s =
     (case environ w ''VCPKG_ROOT'' of
        Some v \<Rightarrow> (Inr (Path v), s)
      | None \<Rightarrow>
         (case environ w ''VCPKG_INSTALLATION_ROOT'' of
            Some f \<Rightarrow> (Inr (Path f), s\<lparr>export_env := dict_set ''VCPKG_ROOT'' f (export_env s)\<rparr>)
          | None \<Rightarrow> fail w msg_root s))"
  unfolding main_root_def
  by (simp add: bind_prog_def export_set_def export_get_def return_prog_def map_of_dict_set
      split: option.split)

lemma main_bootstrap_returns:
  assumes "main_bootstrap w root s = (Inr exe, s')"
  shows "exe = Div root (''vcpkg'' @ exe_suffix w) \<and> export_env s' = export_env s"
  using assms unfolding main_bootstrap_def Let_def
  by (auto simp: bind_prog_def exists_path_def fail_apply check_call_def subprocess_run_def
      return_prog_def raise_prog_def split: if_splits proc_result.splits)

lemma main_runtime_returns:
  assumes "main_runtime w s = (Inr runtime, s')"
  shows "s' = s"
  using assms unfolding main_runtime_def
  by (auto simp: bind_prog_def shutil_which_def fail_apply return_prog_def split: if_splits)

lemma main_fetch_returns:
  assumes "main_fetch w root exe runtime s = (Inr nuget, s')"
  shows "export_env s' = export_env s"
  using assms unfolding main_fetch_def
  by (auto simp: bind_prog_def check_output_def subprocess_run_def return_prog_def raise_prog_def
      split: if_splits proc_result.splits list.splits)

lemma main_credentials_returns:
  assumes "main_credentials w s = (Inr (u, t), s')"
  shows "s' = s \<and> environ w ''VCPKG_NUGET_USER'' = Some u \<and> u \<noteq> [] \<and>
         environ w ''VCPKG_NUGET_TOKEN'' = Some t \<and> t \<noteq> []"
  using assms unfolding main_credentials_def
  by (auto simp: fail_apply return_prog_def split: option.splits if_splits)

lemma main_primary_feed_returns:
  assumes "main_primary_feed w root nuget u t s = (Inr (), s')"
  shows "export_env s' = dict_set ''VCPKG_BINARY_SOURCES'' binary_sources (export_env s)"
  using assms unfolding main_primary_feed_def Let_def
  by (auto simp: bind_prog_def export_set_def check_call_def subprocess_run_def return_prog_def
      raise_prog_def split: if_splits proc_result.splits)

lemma main_secondary_feed_no_token:
  assumes "\<not> truthy (environ w ''VCPKG_PRIMARY_NUGET_TOKEN'')"
  shows "main_secondary_feed w root nuget u s = (Inr (), s)"
  using assms unfolding main_secondary_feed_def
  by (auto simp: return_prog_def split: option.splits)

lemma main_secondary_feed_validated:
  assumes "truthy (environ w ''VCPKG_PRIMARY_NUGET_TOKEN'')"
    and "fst (main_secondary_feed w root nuget u s) \<noteq> Inl (SystemExit 1)"
  shows "\<exists>owner. environ w ''VCPKG_PRIMARY_NUGET_OWNER'' = Some owner \<and> owner \<noteq> []"
  using assms unfolding main_secondary_feed_def
  by (auto simp: fail_apply split: option.splits if_splits)

lemma main_tools_returns:
  assumes "main_tools w s = (Inr (root, nuget), s')"
  shows "\<exists>r. root = Path r \<and>
           (environ w ''VCPKG_ROOT'' = Some r \<and> export_env s' = export_env s \<or>
            environ w ''VCPKG_ROOT'' = None \<and> environ w ''VCPKG_INSTALLATION_ROOT'' = Some r \<and>
            export_env s' = dict_set ''VCPKG_ROOT'' r (export_env s))"
proof -
  from assms obtain exe runtime s1 s2 s3 where
    r: "main_root w s = (Inr root, s1)" and b: "main_bootstrap w root s1 = (Inr exe, s2)"
    and m: "main_runtime w s2 = (Inr runtime, s3)"
    and f: "main_fetch w root exe runtime s3 = (Inr nuget, s')"
    unfolding main_tools_def by (auto simp: bind_prog_returns return_prog_def)
  from b m f have e: "export_env s' = export_env s1"
    using main_bootstrap_returns main_runtime_returns main_fetch_returns by metis
  from r e show ?thesis
    by (auto simp: main_root_apply fail_apply split: option.splits)
qed

lemma main_returns:
  assumes "main w s = (Inr (), s')"
  shows "\<exists>root nuget u t s1 s2 s3.
           main_tools w s = (Inr (root, nuget), s1) \<and>
           main_credentials w s1 = (Inr (u, t), s1) \<and>
           main_primary_feed w root nuget u t s1 = (Inr (), s2) \<and>
           main_secondary_feed w root nuget u s2 = (Inr (), s3) \<and>
           main_print w s3 = (Inr (), s')"
proof -
  from assms obtain root nuget u t s1 s1' s2 s3 where
    a: "main_tools w s = (Inr (root, nuget), s1)"
    and c: "main_credentials w s1 = (Inr (u, t), s1')"
    and p: "main_primary_feed w root nuget u t s1' = (Inr (), s2)"
    and q: "main_secondary_feed w root nuget u s2 = (Inr (), s3)"
    and z: "main_print w s3 = (Inr (), s')"
    unfolding main_def by (auto simp: bind_prog_returns split: prod.splits)
  from c have "s1' = s1" using main_credentials_returns by blast
  with a c p q z show ?thesis by blast
qed

section \<open>The commands a piece starts and the entries it leaves alone\<close>

lemma confined_bind:
  assumes m: "confined P K m"
    and f: "\<And>a s s'. m s = (Inr a, s') \<Longrightarrow> confined P K (f a)"
  shows "confined P K (bind_prog m f)"
  unfolding confined_def
proof
  fix s
  from m obtain evs1 where t1: "trace (snd (m s)) = trace s @ evs1"
    and p1: "list_all P (commands_of evs1)"
    and k1: "\<forall>k\<in>K. map_of (export_env (snd (m s))) k = map_of (export_env s) k"
    unfolding confined_def by blast
  show "(\<exists>evs. trace (snd (bind_prog m f s)) = trace s @ evs \<and> list_all P (commands_of evs)) \<and>
        (\<forall>k\<in>K. map_of (export_env (snd (bind_prog m f s))) k = map_of (export_env s) k)"
  proof (cases "m s")
    case (Pair r s1)
    show ?thesis
    proof (cases r)
      case (Inl e)
      with Pair have "bind_prog m f s = (Inl e, s1)" by (simp add: bind_prog_Inl)
      with Pair t1 p1 k1 show ?thesis by auto
    next
      case (Inr a)
      with Pair have b: "bind_prog m f s = f a s1" by (simp add: bind_prog_Inr)
      from f[of s a s1] Pair Inr have "confined P K (f a)" by simp
      then obtain evs2 where t2: "trace (snd (f a s1)) = trace s1 @ evs2"
        and p2: "list_all P (commands_of evs2)"
        and k2: "\<forall>k\<in>K. map_of (export_env (snd (f a s1))) k = map_of (export_env s1) k"
        unfolding confined_def by blast
      from Pair t1 t2 have "trace (snd (f a s1)) = trace s @ (evs1 @ evs2)" by simp
      moreover from p1 p2 have "list_all P (commands_of (evs1 @ evs2))"
        by (simp add: commands_of_append)
      moreover from Pair k1 k2
      have "\<forall>k\<in>K. map_of (export_env (snd (f a s1))) k = map_of (export_env s) k" by simp
      ultimately show ?thesis using b by metis
    qed
  qed
qed

named_theorems confined_intros

lemma confined_return [confined_intros]: "confined P K (return_prog a)"
  by (simp add: confined_def return_prog_def)

lemma confined_raise [confined_intros]: "confined P K (raise_prog e)"
  by (simp add: confined_def raise_prog_def)

lemma confined_fail [confined_intros]: "confined P K (fail w msg)"
  by (simp add: confined_def fail_apply)

lemma confined_print_stderr [confined_intros]: "confined P K (print_stderr l)"
  by (simp add: confined_def print_stderr_def emit_def)

lemma confined_exists_path [confined_intros]: "confined P K (exists_path w p)"
  by (simp add: confined_def exists_path_def)

lemma confined_shutil_which [confined_intros]: "confined P K (shutil_which w n)"
  by (simp add: confined_def shutil_which_def)

lemma confined_export_get [confined_intros]: "confined P K (export_get k)"
  by (simp add: confined_def export_get_def split: option.split)

lemma confined_export_set [confined_intros]: "k \<notin> K \<Longrightarrow> confined P K (export_set k v)"
  by (auto simp: confined_def export_set_def map_of_dict_set)

lemma confined_subprocess_run [confined_intros]: "P c \<Longrightarrow> confined P K (subprocess_run w c)"
  by (simp add: confined_def subprocess_run_def split: proc_result.split)

lemma confined_check_call [confined_intros]: "P c \<Longrightarrow> confined P K (check_call w c)"
  by (simp add: confined_def check_call_def subprocess_run_def bind_prog_def
      raise_prog_def return_prog_def split: proc_result.split)

lemma confined_check_output [confined_intros]: "P c \<Longrightarrow> confined P K (check_output w c)"
  by (simp add: confined_def check_output_def subprocess_run_def bind_prog_def
      raise_prog_def return_prog_def split: proc_result.split)

lemma commands_of_export_lines [simp]:
  "commands_of (map (\<lambda>(k, v). Stdout (f k v)) env) = []"
  by (induction env) auto

lemma confined_main_print [confined_intros]: "confined P K (main_print w)"
  by (simp add: confined_def main_print_def print_export_variables_apply)


lemma under_root_bootstrap:
  "under_root root (Command [PathArg (Div root name)] root)"
  by (simp add: under_root_def)

lemma under_root_fetch:
  "under_root root (fetch_command root (Div root name))"
  by (simp add: under_root_def fetch_command_def)

lemma under_root_sources:
  "list_all (\<lambda>a. case a of PathArg p \<Rightarrow> (\<exists>name. p = Div root name) | Str _ \<Rightarrow> True) nuget \<Longrightarrow>
   under_root root (sources_command nuget verb url name user password root)"
  by (simp add: under_root_def sources_command_def)

lemma under_root_setapikey:
  "list_all (\<lambda>a. case a of PathArg p \<Rightarrow> (\<exists>name. p = Div root name) | Str _ \<Rightarrow> True) nuget \<Longrightarrow>
   under_root root (setapikey_command nuget token url root)"
  by (simp add: under_root_def setapikey_command_def)

lemma confined_main_bootstrap:
  "confined (under_root root) {''VCPKG_ROOT''} (main_bootstrap w root)"
  unfolding main_bootstrap_def Let_def
  by (auto intro!: confined_bind confined_intros under_root_bootstrap)

lemma confined_main_runtime: "confined P K (main_runtime w)"
  unfolding main_runtime_def
  by (auto intro!: confined_bind confined_intros)

lemma confined_main_fetch:
  "confined (under_root root) {''VCPKG_ROOT''} (main_fetch w root (Div root name) runtime)"
  unfolding main_fetch_def
  by (auto split: list.split intro!: confined_bind confined_intros under_root_fetch)

lemma confined_main_credentials: "confined P K (main_credentials w)"
  unfolding main_credentials_def
  by (auto split: option.split intro!: confined_bind confined_intros)

lemma confined_main_primary_feed:
  assumes "list_all (\<lambda>a. case a of PathArg p \<Rightarrow> (\<exists>name. p = Div root name) | Str _ \<Rightarrow> True) nuget"
  shows "confined (under_root root) {''VCPKG_ROOT''} (main_primary_feed w root nuget u t)"
  unfolding main_primary_feed_def Let_def
  by (auto intro!: confined_bind confined_intros under_root_sources under_root_setapikey assms)

lemma confined_main_secondary_feed:
  assumes "list_all (\<lambda>a. case a of PathArg p \<Rightarrow> (\<exists>name. p = Div root name) | Str _ \<Rightarrow> True) nuget"
  shows "confined (under_root root) {''VCPKG_ROOT''} (main_secondary_feed w root nuget u)"
  unfolding main_secondary_feed_def Let_def
  by (auto split: option.split intro!: confined_bind confined_intros under_root_sources assms)

lemma main_runtime_args:
  assumes "main_runtime w s = (Inr runtime, s')"
  shows "runtime = [] \<or> runtime = [Str ''mono'']"
  using assms unfolding main_runtime_def
  by (auto simp: bind_prog_def shutil_which_def fail_apply return_prog_def split: if_splits)

lemma main_fetch_args:
  assumes "main_fetch w root exe runtime s = (Inr nuget, s')"
  shows "\<exists>line. nuget = runtime @ [Str line]"
  using assms unfolding main_fetch_def
  by (auto simp: bind_prog_def check_output_def subprocess_run_def return_prog_def raise_prog_def
      split: if_splits proc_result.splits list.splits)


lemma main_exit_code: "exit_code (fst (main w init)) = (if fst (main w init) = Inr () then 0 else 1)"
proof (cases "main w init")
  case (Pair r s)
  from main_ending[OF Pair] have e: "ending_ok w True (trace s) r" .
  show ?thesis
  proof (cases r)
    case (Inr u)
    with Pair show ?thesis by simp
  next
    case (Inl x)
    with e Pair show ?thesis by (cases x) (auto simp: ending_ok_def)
  qed
qed

lemma main_tools_fails: "main_tools w s = (Inl e, s') \<Longrightarrow> main w s = (Inl e, s')"
  unfolding main_def by (rule bind_prog_Inl)

lemma bind_prog_fails:
  assumes "\<And>a s1. \<exists>e s2. f a s1 = (Inl e, s2)"
  shows "\<exists>e s2. bind_prog m f s = (Inl e, s2)"
proof (cases "m s")
  case (Pair r s1)
  show ?thesis
  proof (cases r)
    case (Inl e)
    with Pair show ?thesis by (simp add: bind_prog_Inl)
  next
    case (Inr a)
    with Pair assms[of a s1] show ?thesis by (simp add: bind_prog_Inr)
  qed
qed

lemma main_tools_plain_args:
  assumes "main_tools w s = (Inr (root, nuget), s')"
  shows "list_all (\<lambda>a. case a of PathArg p \<Rightarrow> (\<exists>name. p = Div root name) | Str _ \<Rightarrow> True) nuget"
proof -
  from assms obtain exe runtime s1 s2 s3 where
    m: "main_runtime w s2 = (Inr runtime, s3)"
    and f: "main_fetch w root exe runtime s3 = (Inr nuget, s')"
    unfolding main_tools_def by (auto simp: bind_prog_returns return_prog_def)
  from main_runtime_args[OF m] main_fetch_args[OF f] show ?thesis by auto
qed

lemma confined_tools_from_root:
  "confined (under_root root) {''VCPKG_ROOT''}
     (bind_prog (main_bootstrap w root) (\<lambda>vcpkg_exe.
      bind_prog (main_runtime w) (\<lambda>runtime.
      bind_prog (main_fetch w root vcpkg_exe runtime) (\<lambda>nuget.
      return_prog (root, nuget)))))"
  by (auto intro!: confined_bind confined_main_bootstrap confined_main_runtime confined_main_fetch
      confined_return dest!: main_bootstrap_returns)

lemma confined_feeds:
  assumes "list_all (\<lambda>a. case a of PathArg p \<Rightarrow> (\<exists>name. p = Div root name) | Str _ \<Rightarrow> True) nuget"
  shows "confined (under_root root) {''VCPKG_ROOT''}
     (bind_prog (main_credentials w) (\<lambda>(nuget_user, nuget_token).
      bind_prog (main_primary_feed w root nuget nuget_user nuget_token) (\<lambda>_.
      bind_prog (main_secondary_feed w root nuget nuget_user) (\<lambda>_.
      main_print w))))"
  by (auto split: prod.split intro!: confined_bind confined_main_credentials
      confined_main_primary_feed confined_main_secondary_feed confined_main_print assms)

section \<open>Where the run goes after each piece\<close>

lemma splitlines_from_Nil: "splitlines_from cur cs = [] \<longleftrightarrow> cur = [] \<and> cs = []"
  by (induction cs arbitrary: cur) auto

lemma splitlines_Nil: "splitlines out = [] \<longleftrightarrow> out = []"
  by (simp add: splitlines_def splitlines_from_Nil)

lemma splitlines_empty: "splitlines [] = []"
  by (simp add: splitlines_def)

lemma main_after_tools:
  assumes "main_tools w s = (Inr (root, nuget), s1)"
  shows "main w s =
     bind_prog (main_credentials w) (\<lambda>(nuget_user, nuget_token).
     bind_prog (main_primary_feed w root nuget nuget_user nuget_token) (\<lambda>_.
     bind_prog (main_secondary_feed w root nuget nuget_user) (\<lambda>_.
     main_print w))) s1"
  unfolding main_def using assms by (simp add: bind_prog_def)

lemma main_after_credentials:
  assumes "main_tools w s = (Inr (root, nuget), s1)"
    and "main_credentials w s1 = (Inr (u, t), s1)"
  shows "main w s =
     bind_prog (main_primary_feed w root nuget u t) (\<lambda>_.
     bind_prog (main_secondary_feed w root nuget u) (\<lambda>_.
     main_print w)) s1"
  unfolding main_after_tools[OF assms(1)] using assms(2) by (simp add: bind_prog_def)

lemma main_after_primary_feed:
  assumes "main_tools w s = (Inr (root, nuget), s1)"
    and "main_credentials w s1 = (Inr (u, t), s1)"
    and "main_primary_feed w root nuget u t s1 = (Inr (), s2)"
  shows "main w s = bind_prog (main_secondary_feed w root nuget u) (\<lambda>_. main_print w) s2"
  unfolding main_after_credentials[OF assms(1,2)] using assms(3) by (simp add: bind_prog_def)

lemma main_credentials_no_user:
  assumes "\<not> truthy (environ w ''VCPKG_NUGET_USER'')"
  shows "main_credentials w s = fail w msg_user s"
  using assms unfolding main_credentials_def by (auto split: option.splits)

lemma main_credentials_no_token:
  assumes "truthy (environ w ''VCPKG_NUGET_USER'')"
    and "\<not> truthy (environ w ''VCPKG_NUGET_TOKEN'')"
  shows "main_credentials w s = fail w msg_token s"
  using assms unfolding main_credentials_def by (auto split: option.splits)

lemma main_secondary_feed_no_owner:
  assumes "truthy (environ w ''VCPKG_PRIMARY_NUGET_TOKEN'')"
    and "\<not> truthy (environ w ''VCPKG_PRIMARY_NUGET_OWNER'')"
  shows "main_secondary_feed w root nuget u s = fail w msg_owner s"
  using assms unfolding main_secondary_feed_def by (auto split: option.splits)

lemma main_secondary_feed_same_owner:
  assumes "truthy (environ w ''VCPKG_PRIMARY_NUGET_TOKEN'')"
    and "environ w ''VCPKG_PRIMARY_NUGET_OWNER'' = Some u" and "u \<noteq> []"
  shows "main_secondary_feed w root nuget u s =
           (Inr (), s\<lparr>trace := trace s @ [Stderr msg_same_feed]\<rparr>)"
  using assms unfolding main_secondary_feed_def
  by (auto simp: print_stderr_def emit_def split: option.splits)

lemma main_returns_validated:
  assumes "main w init = (Inr (), s)"
  shows "(environ w ''VCPKG_ROOT'' \<noteq> None \<or> environ w ''VCPKG_INSTALLATION_ROOT'' \<noteq> None)
       \<and> truthy (environ w ''VCPKG_NUGET_USER'') \<and> truthy (environ w ''VCPKG_NUGET_TOKEN'')
       \<and> (truthy (environ w ''VCPKG_PRIMARY_NUGET_TOKEN'') \<longrightarrow>
            truthy (environ w ''VCPKG_PRIMARY_NUGET_OWNER''))"
proof -
  from main_returns[OF assms] obtain root nuget u t s1 s2 s3 where
    a: "main_tools w init = (Inr (root, nuget), s1)"
    and c: "main_credentials w s1 = (Inr (u, t), s1)"
    and q: "main_secondary_feed w root nuget u s2 = (Inr (), s3)"
    by blast
  from main_tools_returns[OF a]
  have "environ w ''VCPKG_ROOT'' \<noteq> None \<or> environ w ''VCPKG_INSTALLATION_ROOT'' \<noteq> None"
    by auto
  moreover from main_credentials_returns[OF c]
  have "truthy (environ w ''VCPKG_NUGET_USER'') \<and> truthy (environ w ''VCPKG_NUGET_TOKEN'')"
    by simp
  moreover have "truthy (environ w ''VCPKG_PRIMARY_NUGET_OWNER'')"
    if "truthy (environ w ''VCPKG_PRIMARY_NUGET_TOKEN'')"
    using main_secondary_feed_validated[OF that, of root nuget u s2] q by auto
  ultimately show ?thesis by blast
qed

lemma main_fails_unvalidated:
  assumes "environ w ''VCPKG_ROOT'' = None \<and> environ w ''VCPKG_INSTALLATION_ROOT'' = None
       \<or> \<not> truthy (environ w ''VCPKG_NUGET_USER'') \<or> \<not> truthy (environ w ''VCPKG_NUGET_TOKEN'')
       \<or> truthy (environ w ''VCPKG_PRIMARY_NUGET_TOKEN'') \<and>
          \<not> truthy (environ w ''VCPKG_PRIMARY_NUGET_OWNER'')"
  shows "exit_code (fst (main w init)) = 1"
proof -
  have "fst (main w init) \<noteq> Inr ()"
  proof
    assume "fst (main w init) = Inr ()"
    then have "main w init = (Inr (), snd (main w init))" by (metis prod.collapse)
    from main_returns_validated[OF this] assms show False by auto
  qed
  then show ?thesis by (simp add: main_exit_code)
qed

lemma main_owner_missing:
  assumes "main_tools w init = (Inr (root, nuget), s1)"
    and "main_credentials w s1 = (Inr (u, t), s1)"
    and "main_primary_feed w root nuget u t s1 = (Inr (), s2)"
    and "truthy (environ w ''VCPKG_PRIMARY_NUGET_TOKEN'')"
    and "\<not> truthy (environ w ''VCPKG_PRIMARY_NUGET_OWNER'')"
  shows "main w init =
           (Inl (SystemExit 1),
            s2\<lparr>trace := trace s2 @ [Stderr msg_owner, Stdout (fail_statement w)]\<rparr>)"
  unfolding main_after_primary_feed[OF assms(1,2,3)]
  by (simp add: bind_prog_def main_secondary_feed_no_owner[OF assms(4,5)] fail_apply)

lemma check_call_nonzero:
  assumes "exec w (trace s) c = Exited rc out" and "rc \<noteq> 0"
  shows "check_call w c s = (Inl (CalledProcessError rc c), s\<lparr>trace := trace s @ [Exec c]\<rparr>)"
  using assms
  by (simp add: check_call_def subprocess_run_def bind_prog_def raise_prog_def)

lemma check_output_nonzero:
  assumes "exec w (trace s) c = Exited rc out" and "rc \<noteq> 0"
  shows "check_output w c s = (Inl (CalledProcessError rc c), s\<lparr>trace := trace s @ [Exec c]\<rparr>)"
  using assms
  by (simp add: check_output_def subprocess_run_def bind_prog_def raise_prog_def)

lemma main_root_missing:
  assumes "environ w ''VCPKG_ROOT'' = None" and "environ w ''VCPKG_INSTALLATION_ROOT'' = None"
  shows "main_root w s = fail w msg_root s"
  using assms by (simp add: main_root_apply)

lemma main_bootstrap_missing:
  assumes "\<not> path_exists w (trace s) (Div root (''vcpkg'' @ exe_suffix w))"
    and "\<not> path_exists w (trace s) (Div root (''bootstrap-vcpkg'' @ script_suffix w))"
  shows "main_bootstrap w root s =
           fail w (''VCPKG_ROOT ('' @ path_str w root @ '') does not contain bootstrap script'') s"
  using assms unfolding main_bootstrap_def Let_def
  by (simp add: bind_prog_def exists_path_def fail_apply)

lemma main_runtime_missing:
  assumes "platform w \<noteq> ''win32''" and "\<not> truthy (which w (trace s) ''mono'')"
  shows "main_runtime w s = fail w msg_mono s"
  using assms unfolding main_runtime_def
  by (simp add: bind_prog_def shutil_which_def)

section \<open>Properties of the script\<close>

text \<open>
  C1 (amended). A run that does not return ends with exit status 1, in one of two ways.
  Through \<open>fail\<close>: the last two things the script does are the diagnostic on the error
  stream and the shell statement on standard output, and nothing else was printed on
  standard output. Or by an exception that nothing catches, with nothing at all on
  standard output, so without a shell statement: a \<open>CalledProcessError\<close> when a mandatory
  command has exited with a status other than 0 (that command is the last event), or
  another exception of a library call. The first way is the one of a missing variable
  (neither root variable; no user name; no token; no owner with a token for the read-only
  feed), of a missing bootstrap script and of a missing runtime: there the piece of
  \<open>main\<close> is \<open>fail\<close> with its message. The second is the one of \<open>check_call\<close> and
  \<open>check_output\<close> on a command that exits with a status other than 0.
\<close>

theorem main_failure_routes:
  assumes "main w init = (r, s)"
  shows "(case r of
            Inr _ \<Rightarrow> True
          | Inl (SystemExit n) \<Rightarrow>
              n = 1 \<and>
              (\<exists>pre msg. trace s = pre @ [Stderr msg, Stdout (fail_statement w)] \<and>
                 stdout_of pre = [])
          | Inl (CalledProcessError rc c) \<Rightarrow>
              rc \<noteq> 0 \<and> stdout_of (trace s) = [] \<and> (\<exists>pre. trace s = pre @ [Exec c])
          | Inl _ \<Rightarrow> stdout_of (trace s) = [])
       \<and> exit_code r = (if r = Inr () then 0 else 1)
       \<and> fail w msg st =
           (Inl (SystemExit 1), st\<lparr>trace := trace st @ [Stderr msg, Stdout (fail_statement w)]\<rparr>)
       \<and> (environ w ''VCPKG_ROOT'' = None \<and> environ w ''VCPKG_INSTALLATION_ROOT'' = None \<longrightarrow>
            main_root w st = fail w msg_root st)
       \<and> (\<not> path_exists w (trace st) (Div root (''vcpkg'' @ exe_suffix w)) \<and>
          \<not> path_exists w (trace st) (Div root (''bootstrap-vcpkg'' @ script_suffix w)) \<longrightarrow>
            main_bootstrap w root st =
              fail w (''VCPKG_ROOT ('' @ path_str w root @
                      '') does not contain bootstrap script'') st)
       \<and> (platform w \<noteq> ''win32'' \<and> \<not> truthy (which w (trace st) ''mono'') \<longrightarrow>
            main_runtime w st = fail w msg_mono st)
       \<and> (\<not> truthy (environ w ''VCPKG_NUGET_USER'') \<longrightarrow>
            main_credentials w st = fail w msg_user st)
       \<and> (truthy (environ w ''VCPKG_NUGET_USER'') \<and> \<not> truthy (environ w ''VCPKG_NUGET_TOKEN'') \<longrightarrow>
            main_credentials w st = fail w msg_token st)
       \<and> (truthy (environ w ''VCPKG_PRIMARY_NUGET_TOKEN'') \<and>
          \<not> truthy (environ w ''VCPKG_PRIMARY_NUGET_OWNER'') \<longrightarrow>
            main_secondary_feed w root nuget user st = fail w msg_owner st)
       \<and> (exec w (trace st) c = Exited rc out \<and> rc \<noteq> 0 \<longrightarrow>
            check_call w c st =
              (Inl (CalledProcessError rc c), st\<lparr>trace := trace st @ [Exec c]\<rparr>) \<and>
            check_output w c st =
              (Inl (CalledProcessError rc c), st\<lparr>trace := trace st @ [Exec c]\<rparr>))"
proof -
  from main_ending[OF assms] have e: "ending_ok w True (trace s) r" .
  have ends: "(case r of
            Inr _ \<Rightarrow> True
          | Inl (SystemExit n) \<Rightarrow>
              n = 1 \<and>
              (\<exists>pre msg. trace s = pre @ [Stderr msg, Stdout (fail_statement w)] \<and>
                 stdout_of pre = [])
          | Inl (CalledProcessError rc c) \<Rightarrow>
              rc \<noteq> 0 \<and> stdout_of (trace s) = [] \<and> (\<exists>pre. trace s = pre @ [Exec c])
          | Inl _ \<Rightarrow> stdout_of (trace s) = [])
       \<and> exit_code r = (if r = Inr () then 0 else 1)"
  proof (cases r)
    case (Inr u)
    then show ?thesis by simp
  next
    case (Inl x)
    with e show ?thesis by (cases x) (auto simp: ending_ok_def)
  qed
  from ends show ?thesis
    using fail_apply[of w msg st] main_root_missing[of w st]
      main_bootstrap_missing[of w st root] main_runtime_missing[of w st]
      main_credentials_no_user[of w st] main_credentials_no_token[of w st]
      main_secondary_feed_no_owner[of w root nuget user st]
      check_call_nonzero[of w st c rc out] check_output_nonzero[of w st c rc out]
    by blast
qed

theorem main_failure_routes_witness:
  "main w_no_root init =
     (Inl (SystemExit 1), init\<lparr>trace := [Stderr msg_root, Stdout ''return 1'']\<rparr>)
   \<and> main w_no_bootstrap init =
       (Inl (SystemExit 1),
        init\<lparr>trace := [Stderr ''VCPKG_ROOT (/opt/vcpkg) does not contain bootstrap script'',
                        Stdout ''return 1'']\<rparr>)
   \<and> main w_no_mono init =
       (Inl (SystemExit 1), init\<lparr>trace := [Stderr msg_mono, Stdout ''return 1'']\<rparr>)
   \<and> main w_no_user init =
       (Inl (SystemExit 1),
        after_fetch\<lparr>trace := trace after_fetch @ [Stderr msg_user, Stdout ''return 1'']\<rparr>)
   \<and> main w_no_token init =
       (Inl (SystemExit 1),
        after_fetch\<lparr>trace := trace after_fetch @ [Stderr msg_token, Stdout ''return 1'']\<rparr>)
   \<and> main w_no_owner init =
       (Inl (SystemExit 1),
        after_setapikey\<lparr>trace := trace after_setapikey @
          [Stderr msg_owner, Stdout ''return 1'']\<rparr>)
   \<and> main_root w_no_root init = fail w_no_root msg_root init
   \<and> main_bootstrap w_no_bootstrap (Path ''/opt/vcpkg'') init =
       fail w_no_bootstrap (''VCPKG_ROOT ('' @ path_str w_no_bootstrap (Path ''/opt/vcpkg'') @
                      '') does not contain bootstrap script'') init
   \<and> main_runtime w_no_mono init = fail w_no_mono msg_mono init
   \<and> main_credentials w_no_user after_fetch = fail w_no_user msg_user after_fetch
   \<and> main_credentials w_no_token after_fetch = fail w_no_token msg_token after_fetch
   \<and> main_secondary_feed w_no_owner (Path ''/opt/vcpkg'') nuget_linux ''alice''
       after_setapikey = fail w_no_owner msg_owner after_setapikey
   \<and> check_call w_update_fails
        (sources_command nuget_linux ''update'' (feed_url ''alice'') ''GitHub''
           ''alice'' ''t0k'' (Path ''/opt/vcpkg'')) init =
       (Inl (CalledProcessError 1
          (sources_command nuget_linux ''update'' (feed_url ''alice'') ''GitHub''
             ''alice'' ''t0k'' (Path ''/opt/vcpkg''))),
        init\<lparr>trace := [Exec (sources_command nuget_linux ''update'' (feed_url ''alice'')
           ''GitHub'' ''alice'' ''t0k'' (Path ''/opt/vcpkg''))]\<rparr>)
   \<and> fst (main w_empty_fetch init) = Inl IndexError
   \<and> stdout_of (trace (snd (main w_empty_fetch init))) = []
   \<and> exit_code (fst (main w_empty_fetch init)) = 1"
proof -
  have m1: "main w_no_root init =
     (Inl (SystemExit 1), init\<lparr>trace := [Stderr msg_root, Stdout ''return 1'']\<rparr>)"
    by code_simp
  have m2: "main w_no_bootstrap init =
       (Inl (SystemExit 1),
        init\<lparr>trace := [Stderr ''VCPKG_ROOT (/opt/vcpkg) does not contain bootstrap script'',
                        Stdout ''return 1'']\<rparr>)"
    by code_simp
  have m3: "main w_no_mono init =
       (Inl (SystemExit 1), init\<lparr>trace := [Stderr msg_mono, Stdout ''return 1'']\<rparr>)"
    by code_simp
  have m4: "main w_no_user init =
       (Inl (SystemExit 1),
        after_fetch\<lparr>trace := trace after_fetch @ [Stderr msg_user, Stdout ''return 1'']\<rparr>)"
    by code_simp
  have m5: "main w_no_token init =
       (Inl (SystemExit 1),
        after_fetch\<lparr>trace := trace after_fetch @ [Stderr msg_token, Stdout ''return 1'']\<rparr>)"
    by code_simp
  have m6: "main w_no_owner init =
       (Inl (SystemExit 1),
        after_setapikey\<lparr>trace := trace after_setapikey @
          [Stderr msg_owner, Stdout ''return 1'']\<rparr>)"
    by code_simp
  have m7: "fst (main w_empty_fetch init) = Inl IndexError" by code_simp
  have h1: "environ w_no_root ''VCPKG_ROOT'' = None \<and>
            environ w_no_root ''VCPKG_INSTALLATION_ROOT'' = None" by code_simp
  have h2: "\<not> path_exists w_no_bootstrap (trace init)
              (Div (Path ''/opt/vcpkg'') (''vcpkg'' @ exe_suffix w_no_bootstrap)) \<and>
            \<not> path_exists w_no_bootstrap (trace init)
              (Div (Path ''/opt/vcpkg'') (''bootstrap-vcpkg'' @ script_suffix w_no_bootstrap))"
    by code_simp
  have h3: "platform w_no_mono \<noteq> ''win32'' \<and> \<not> truthy (which w_no_mono (trace init) ''mono'')"
    by code_simp
  have h4: "\<not> truthy (environ w_no_user ''VCPKG_NUGET_USER'')" by code_simp
  have h5: "truthy (environ w_no_token ''VCPKG_NUGET_USER'') \<and>
            \<not> truthy (environ w_no_token ''VCPKG_NUGET_TOKEN'')" by code_simp
  have h6: "truthy (environ w_no_owner ''VCPKG_PRIMARY_NUGET_TOKEN'') \<and>
            \<not> truthy (environ w_no_owner ''VCPKG_PRIMARY_NUGET_OWNER'')" by code_simp
  have h7: "exec w_update_fails (trace init)
        (sources_command nuget_linux ''update'' (feed_url ''alice'') ''GitHub''
           ''alice'' ''t0k'' (Path ''/opt/vcpkg'')) = Exited 1 [] \<and> (1::int) \<noteq> 0"
    by code_simp
  have i: "trace init = []" by code_simp
  note t1 = main_failure_routes[OF m1, where st = init]
  note t2 = main_failure_routes[OF m2, where st = init and root = "Path ''/opt/vcpkg''"]
  note t3 = main_failure_routes[OF m3, where st = init]
  note t4 = main_failure_routes[OF m4, where st = after_fetch]
  note t5 = main_failure_routes[OF m5, where st = after_fetch]
  note t6 = main_failure_routes[OF m6, where st = after_setapikey
      and root = "Path ''/opt/vcpkg''" and nuget = nuget_linux and user = "''alice''"]
  note t7 = main_failure_routes[OF surjective_pairing, of w_update_fails,
      where st = init and rc = 1 and out = "[]"
      and c = "sources_command nuget_linux ''update'' (feed_url ''alice'') ''GitHub''
           ''alice'' ''t0k'' (Path ''/opt/vcpkg'')"]
  note t8 = main_failure_routes[OF surjective_pairing, of w_empty_fetch]
  from t1 h1 have r1: "main_root w_no_root init = fail w_no_root msg_root init" by blast
  from t2 h2 have r2: "main_bootstrap w_no_bootstrap (Path ''/opt/vcpkg'') init =
      fail w_no_bootstrap (''VCPKG_ROOT ('' @ path_str w_no_bootstrap (Path ''/opt/vcpkg'') @
                      '') does not contain bootstrap script'') init" by blast
  from t3 h3 have r3: "main_runtime w_no_mono init = fail w_no_mono msg_mono init" by blast
  from t4 h4 have r4: "main_credentials w_no_user after_fetch = fail w_no_user msg_user after_fetch"
    by blast
  from t5 h5 have r5: "main_credentials w_no_token after_fetch =
      fail w_no_token msg_token after_fetch" by blast
  from t6 h6 have r6: "main_secondary_feed w_no_owner (Path ''/opt/vcpkg'') nuget_linux ''alice''
      after_setapikey = fail w_no_owner msg_owner after_setapikey" by blast
  from t7 h7 have r7: "check_call w_update_fails
        (sources_command nuget_linux ''update'' (feed_url ''alice'') ''GitHub''
           ''alice'' ''t0k'' (Path ''/opt/vcpkg'')) init =
       (Inl (CalledProcessError 1
          (sources_command nuget_linux ''update'' (feed_url ''alice'') ''GitHub''
             ''alice'' ''t0k'' (Path ''/opt/vcpkg''))),
        init\<lparr>trace := trace init @ [Exec (sources_command nuget_linux ''update''
           (feed_url ''alice'') ''GitHub'' ''alice'' ''t0k'' (Path ''/opt/vcpkg''))]\<rparr>)"
    by blast
  from m7 t8[THEN conjunct1] t8[THEN conjunct2, THEN conjunct1]
  have r8: "stdout_of (trace (snd (main w_empty_fetch init))) = [] \<and>
      exit_code (fst (main w_empty_fetch init)) = 1" by simp
  from r7 i have r7': "check_call w_update_fails
        (sources_command nuget_linux ''update'' (feed_url ''alice'') ''GitHub''
           ''alice'' ''t0k'' (Path ''/opt/vcpkg'')) init =
       (Inl (CalledProcessError 1
          (sources_command nuget_linux ''update'' (feed_url ''alice'') ''GitHub''
             ''alice'' ''t0k'' (Path ''/opt/vcpkg''))),
        init\<lparr>trace := [Exec (sources_command nuget_linux ''update'' (feed_url ''alice'')
           ''GitHub'' ''alice'' ''t0k'' (Path ''/opt/vcpkg''))]\<rparr>)"
    by simp
  from m1 m2 m3 m4 m5 m6 r1 r2 r3 r4 r5 r6 r7' m7 r8 show ?thesis by blast
qed

text \<open>
  C1, as stated, fails where \<open>sources update\<close> exits with status 1: the run ends by
  \<open>CalledProcessError\<close>, and the script has printed neither a diagnostic nor a shell
  statement.
\<close>

theorem update_failure_bypasses_fail:
  "fst (main w_update_fails init) =
     Inl (CalledProcessError 1
            (sources_command nuget_linux ''update'' (feed_url ''alice'') ''GitHub''
               ''alice'' ''t0k'' (Path ''/opt/vcpkg'')))
   \<and> stdout_of (trace (snd (main w_update_fails init))) = []
   \<and> stderr_of (trace (snd (main w_update_fails init))) = []"
  by code_simp

text \<open>
  C2 (amended). The user name and the token that pass validation are the values of their
  variables and are not empty, and so is the owner of the read-only feed when its token
  is given (not empty) and the owner check has not failed. The root directory is only
  checked for presence: the path used is the value of \<open>VCPKG_ROOT\<close> when that variable
  is set, else the value of \<open>VCPKG_INSTALLATION_ROOT\<close>, whatever the value, the empty
  string too.
\<close>

theorem validated_values:
  "(main_credentials w s = (Inr (u, t), s') \<longrightarrow>
      environ w ''VCPKG_NUGET_USER'' = Some u \<and> u \<noteq> [] \<and>
      environ w ''VCPKG_NUGET_TOKEN'' = Some t \<and> t \<noteq> [])
   \<and> (truthy (environ w ''VCPKG_PRIMARY_NUGET_TOKEN'') \<and>
        fst (main_secondary_feed w root nuget user s2) \<noteq> Inl (SystemExit 1) \<longrightarrow>
        (\<exists>owner. environ w ''VCPKG_PRIMARY_NUGET_OWNER'' = Some owner \<and> owner \<noteq> []))
   \<and> (main_root w s3 = (Inr p, s3') \<longrightarrow>
        (\<exists>r. p = Path r \<and>
           (environ w ''VCPKG_ROOT'' = Some r \<or>
            environ w ''VCPKG_ROOT'' = None \<and> environ w ''VCPKG_INSTALLATION_ROOT'' = Some r)))"
proof -
  have "main_credentials w s = (Inr (u, t), s') \<longrightarrow>
      environ w ''VCPKG_NUGET_USER'' = Some u \<and> u \<noteq> [] \<and>
      environ w ''VCPKG_NUGET_TOKEN'' = Some t \<and> t \<noteq> []"
    using main_credentials_returns by blast
  moreover have "truthy (environ w ''VCPKG_PRIMARY_NUGET_TOKEN'') \<and>
        fst (main_secondary_feed w root nuget user s2) \<noteq> Inl (SystemExit 1) \<longrightarrow>
        (\<exists>owner. environ w ''VCPKG_PRIMARY_NUGET_OWNER'' = Some owner \<and> owner \<noteq> [])"
    using main_secondary_feed_validated by blast
  moreover have "main_root w s3 = (Inr p, s3') \<longrightarrow>
        (\<exists>r. p = Path r \<and>
           (environ w ''VCPKG_ROOT'' = Some r \<or>
            environ w ''VCPKG_ROOT'' = None \<and> environ w ''VCPKG_INSTALLATION_ROOT'' = Some r))"
    by (auto simp: main_root_apply fail_apply split: option.splits)
  ultimately show ?thesis by blast
qed

theorem validated_values_witness:
  "main_credentials w_other_owner init = (Inr (''alice'', ''t0k''), init)
   \<and> environ w_other_owner ''VCPKG_NUGET_USER'' = Some ''alice''
   \<and> environ w_other_owner ''VCPKG_NUGET_TOKEN'' = Some ''t0k''
   \<and> truthy (environ w_other_owner ''VCPKG_PRIMARY_NUGET_TOKEN'')
   \<and> fst (main_secondary_feed w_other_owner (Path ''/opt/vcpkg'') nuget_linux ''alice'' after_primary)
       = Inr ()
   \<and> (\<exists>owner. environ w_other_owner ''VCPKG_PRIMARY_NUGET_OWNER'' = Some owner \<and> owner \<noteq> [])
   \<and> main_root w_other_owner init = (Inr (Path ''/opt/vcpkg''), init)
   \<and> environ w_other_owner ''VCPKG_ROOT'' = Some ''/opt/vcpkg''"
proof -
  have a: "main_credentials w_other_owner init = (Inr (''alice'', ''t0k''), init)"
    by code_simp
  have b: "truthy (environ w_other_owner ''VCPKG_PRIMARY_NUGET_TOKEN'')"
    by code_simp
  have c: "fst (main_secondary_feed w_other_owner (Path ''/opt/vcpkg'') nuget_linux ''alice'' after_primary)
       = Inr ()"
    by code_simp
  have d: "main_root w_other_owner init = (Inr (Path ''/opt/vcpkg''), init)"
    by code_simp
  have e: "environ w_other_owner ''VCPKG_ROOT'' = Some ''/opt/vcpkg''"
    by code_simp
  from validated_values[of w_other_owner init "''alice''" "''t0k''" init
      "Path ''/opt/vcpkg''" nuget_linux "''alice''" after_primary init "Path ''/opt/vcpkg''" init]
    a b c d e
  show ?thesis by simp
qed

text \<open>
  C2, as stated, fails for the root directory: \<open>VCPKG_ROOT\<close> set to the empty string
  passes validation, the empty string is the root used, and the run succeeds.
\<close>

theorem empty_root_passes_validation:
  "environ w_empty_root ''VCPKG_ROOT'' = Some []
   \<and> main_root w_empty_root init = (Inr (Path []), init)
   \<and> fst (main w_empty_root init) = Inr ()"
  by code_simp

text \<open>
  C3 (amended). A run that succeeds with no token for the read-only feed exits with
  status 0 and prints exactly the entries of \<open>export_env\<close>: one line, setting
  \<open>VCPKG_BINARY_SOURCES\<close> to \<open>clear;nuget,GitHub,readwrite;nugettimeout,3601\<close>, when
  \<open>VCPKG_ROOT\<close> is set; two lines, the root from the fallback variable first and the
  binary cache configuration second, when \<open>VCPKG_ROOT\<close> is unset.
\<close>

theorem success_output:
  assumes "main w init = (Inr (), s)"
    and "\<not> truthy (environ w ''VCPKG_PRIMARY_NUGET_TOKEN'')"
  shows "exit_code (fst (main w init)) = 0
    \<and> (environ w ''VCPKG_ROOT'' \<noteq> None \<longrightarrow>
         stdout_of (trace s) = [export_line w ''VCPKG_BINARY_SOURCES'' binary_sources])
    \<and> (environ w ''VCPKG_ROOT'' = None \<longrightarrow>
         (\<exists>f. environ w ''VCPKG_INSTALLATION_ROOT'' = Some f \<and>
              stdout_of (trace s) =
                [export_line w ''VCPKG_ROOT'' f,
                 export_line w ''VCPKG_BINARY_SOURCES'' binary_sources]))"
proof -
  from main_returns[OF assms(1)] obtain root nuget u t s1 s2 s3 where
    a: "main_tools w init = (Inr (root, nuget), s1)"
    and c: "main_credentials w s1 = (Inr (u, t), s1)"
    and p: "main_primary_feed w root nuget u t s1 = (Inr (), s2)"
    and q: "main_secondary_feed w root nuget u s2 = (Inr (), s3)"
    and z: "main_print w s3 = (Inr (), s)"
    by blast
  from q assms(2) have s3: "s3 = s2" by (simp add: main_secondary_feed_no_token)
  from framed_returns[OF framed_main_tools a] have q1: "stdout_of (trace s1) = []"
    by (auto simp: init_def)
  from framed_returns[OF framed_main_primary_feed p] q1 have q2: "stdout_of (trace s2) = []"
    by (auto simp: stdout_of_append)
  from z s3 have s: "s = s2\<lparr>trace := trace s2 @
      map (\<lambda>(k, v). Stdout (export_line w k v)) (export_env s2)\<rparr>"
    by (simp add: main_print_def print_export_variables_apply)
  have out: "stdout_of (trace s) = map (\<lambda>(k, v). export_line w k v) (export_env s2)"
    by (simp add: s stdout_of_append q2 stdout_of_export_lines)
  from main_primary_feed_returns[OF p]
  have e2: "export_env s2 = dict_set ''VCPKG_BINARY_SOURCES'' binary_sources (export_env s1)" .
  from main_tools_returns[OF a] obtain r where
    r: "environ w ''VCPKG_ROOT'' = Some r \<and> export_env s1 = [] \<or>
        environ w ''VCPKG_ROOT'' = None \<and> environ w ''VCPKG_INSTALLATION_ROOT'' = Some r \<and>
        export_env s1 = [(''VCPKG_ROOT'', r)]"
    by (auto simp: init_def)
  from r out e2 assms(1) show ?thesis by auto
qed

theorem success_output_witness:
  "fst (main w_fallback init) = Inr ()
   \<and> \<not> truthy (environ w_fallback ''VCPKG_PRIMARY_NUGET_TOKEN'')
   \<and> environ w_fallback ''VCPKG_ROOT'' = None
   \<and> exit_code (fst (main w_fallback init)) = 0
   \<and> stdout_of (trace (snd (main w_fallback init))) =
       [export_line w_fallback ''VCPKG_ROOT'' ''/usr/local/share/vcpkg'',
        export_line w_fallback ''VCPKG_BINARY_SOURCES'' binary_sources]"
proof -
  have a: "fst (main w_fallback init) = Inr ()" by code_simp
  then have a': "main w_fallback init = (Inr (), snd (main w_fallback init))"
    by (metis prod.collapse)
  have b: "\<not> truthy (environ w_fallback ''VCPKG_PRIMARY_NUGET_TOKEN'')" by code_simp
  have c: "environ w_fallback ''VCPKG_ROOT'' = None" by code_simp
  have d: "environ w_fallback ''VCPKG_INSTALLATION_ROOT'' = Some ''/usr/local/share/vcpkg''"
    by code_simp
  from success_output[OF a' b] a b c d show ?thesis by simp
qed

text \<open>
  C3, as stated, fails in its own scenario: with \<open>VCPKG_ROOT\<close> set the fallback is not
  used and the output is one line, not two.
\<close>

theorem root_set_prints_one_line:
  "environ w_linux ''VCPKG_ROOT'' = Some ''/opt/vcpkg''
   \<and> fst (main w_linux init) = Inr ()
   \<and> stdout_of (trace (snd (main w_linux init))) =
       [''export VCPKG_BINARY_SOURCES='' @ [CHR 0x27] @
        ''clear;nuget,GitHub,readwrite;nugettimeout,3601'' @ [CHR 0x27]]
   \<and> length (stdout_of (trace (snd (main w_linux init)))) = 1"
  by code_simp

text \<open>
  C6. With \<open>VCPKG_ROOT\<close> unset and \<open>VCPKG_INSTALLATION_ROOT\<close> set to \<open>f\<close>, lines 46-53
  store \<open>f\<close> under \<open>VCPKG_ROOT\<close> in \<open>export_env\<close> and return \<open>Path f\<close> as the root
  directory; however the run ends, \<open>export_env\<close> still holds \<open>f\<close> under \<open>VCPKG_ROOT\<close>, and
  every command the run has started ran in the directory \<open>Path f\<close>, every path among its
  arguments being a file of \<open>Path f\<close>.
\<close>

theorem fallback_root_used:
  assumes "environ w ''VCPKG_ROOT'' = None"
    and "environ w ''VCPKG_INSTALLATION_ROOT'' = Some f"
  shows "main_root w s =
           (Inr (Path f), s\<lparr>export_env := dict_set ''VCPKG_ROOT'' f (export_env s)\<rparr>)
       \<and> map_of (export_env (snd (main w init))) ''VCPKG_ROOT'' = Some f
       \<and> list_all (under_root (Path f)) (commands_of (trace (snd (main w init))))"
proof -
  have root: "main_root w s =
      (Inr (Path f), s\<lparr>export_env := dict_set ''VCPKG_ROOT'' f (export_env s)\<rparr>)" for s
    using assms by (simp add: main_root_apply)
  define s0 where "s0 = init\<lparr>export_env := [(''VCPKG_ROOT'', f)]\<rparr>"
  have r0: "main_root w init = (Inr (Path f), s0)"
    using root[of init] by (simp add: s0_def init_def)
  define T where "T =
     bind_prog (main_bootstrap w (Path f)) (\<lambda>vcpkg_exe.
      bind_prog (main_runtime w) (\<lambda>runtime.
      bind_prog (main_fetch w (Path f) vcpkg_exe runtime) (\<lambda>nuget.
      return_prog (Path f, nuget))))"
  have tools: "main_tools w init = T s0"
    unfolding main_tools_def T_def using r0 by (simp add: bind_prog_def)
  have cT: "confined (under_root (Path f)) {''VCPKG_ROOT''} T"
    unfolding T_def by (rule confined_tools_from_root)
  then obtain evs1 where t1: "trace (snd (T s0)) = trace s0 @ evs1"
    and p1: "list_all (under_root (Path f)) (commands_of evs1)"
    and k1: "map_of (export_env (snd (T s0))) ''VCPKG_ROOT'' = map_of (export_env s0) ''VCPKG_ROOT''"
    unfolding confined_def by blast
  have goal: "map_of (export_env (snd (main w init))) ''VCPKG_ROOT'' = Some f
       \<and> list_all (under_root (Path f)) (commands_of (trace (snd (main w init))))"
  proof (cases "T s0")
    case (Pair r s1)
    show ?thesis
    proof (cases r)
      case (Inl e)
      with Pair tools have "main w init = (Inl e, s1)" by (simp add: main_tools_fails)
      with Pair t1 p1 k1 show ?thesis by (simp add: s0_def init_def)
    next
      case (Inr a)
      obtain root' nuget where a: "a = (root', nuget)" by (cases a)
      from Pair Inr a tools have tl: "main_tools w init = (Inr (root', nuget), s1)" by simp
      from main_tools_returns[OF tl] assms have root': "root' = Path f" by auto
      from main_tools_plain_args[OF tl[unfolded root']]
      have plain: "list_all (\<lambda>a. case a of PathArg p \<Rightarrow> (\<exists>name. p = Div (Path f) name)
                                  | Str _ \<Rightarrow> True) nuget" .
      define G where "G =
        bind_prog (main_credentials w) (\<lambda>(nuget_user, nuget_token).
        bind_prog (main_primary_feed w (Path f) nuget nuget_user nuget_token) (\<lambda>_.
        bind_prog (main_secondary_feed w (Path f) nuget nuget_user) (\<lambda>_.
        main_print w)))"
      have m: "main w init = G s1"
        unfolding main_def G_def using tl root' by (simp add: bind_prog_Inr)
      have "confined (under_root (Path f)) {''VCPKG_ROOT''} G"
        unfolding G_def by (rule confined_feeds[OF plain])
      then obtain evs2 where t2: "trace (snd (G s1)) = trace s1 @ evs2"
        and p2: "list_all (under_root (Path f)) (commands_of evs2)"
        and k2: "map_of (export_env (snd (G s1))) ''VCPKG_ROOT'' = map_of (export_env s1) ''VCPKG_ROOT''"
        unfolding confined_def by blast
      from Pair t1 p1 k1 t2 p2 k2 m show ?thesis
        by (simp add: s0_def init_def commands_of_append)
    qed
  qed
  from root goal show ?thesis by simp
qed

theorem fallback_root_used_witness:
  "environ w_fallback ''VCPKG_ROOT'' = None
   \<and> environ w_fallback ''VCPKG_INSTALLATION_ROOT'' = Some ''/usr/local/share/vcpkg''
   \<and> main_root w_fallback init =
       (Inr (Path ''/usr/local/share/vcpkg''),
        init\<lparr>export_env := [(''VCPKG_ROOT'', ''/usr/local/share/vcpkg'')]\<rparr>)
   \<and> map_of (export_env (snd (main w_fallback init))) ''VCPKG_ROOT''
       = Some ''/usr/local/share/vcpkg''
   \<and> list_all (under_root (Path ''/usr/local/share/vcpkg''))
        (commands_of (trace (snd (main w_fallback init))))
   \<and> length (commands_of (trace (snd (main w_fallback init)))) = 4"
proof -
  have a: "environ w_fallback ''VCPKG_ROOT'' = None" by code_simp
  have b: "environ w_fallback ''VCPKG_INSTALLATION_ROOT'' = Some ''/usr/local/share/vcpkg''"
    by code_simp
  have c: "length (commands_of (trace (snd (main w_fallback init)))) = 4" by code_simp
  from fallback_root_used[OF a b, of init] a b c show ?thesis by (simp add: init_def)
qed

text \<open>
  C9. Off Windows, when \<open>mono\<close> is never found on the search path, the run fails (exit
  status 1), no command it has started is the \<open>fetch\<close> call, and lines 63-64 end in
  \<open>fail\<close> with the message about the runtime.
\<close>

theorem no_runtime_no_fetch:
  assumes "platform w \<noteq> ''win32''" and "\<forall>h. \<not> truthy (which w h ''mono'')"
  shows "exit_code (fst (main w init)) = 1
       \<and> list_all (\<lambda>c. Str ''fetch'' \<notin> set (argv c)) (commands_of (trace (snd (main w init))))
       \<and> main_runtime w s =
           (Inl (SystemExit 1),
            s\<lparr>trace := trace s @ [Stderr msg_mono, Stdout (fail_statement w)]\<rparr>)"
proof -
  have rt: "bind_prog (main_runtime w) F = fail w msg_mono" for F :: "arg list \<Rightarrow> 'b prog"
    using assms unfolding main_runtime_def
    by (auto simp: bind_prog_def shutil_which_def fail_apply)
  have rt': "main_runtime w s = fail w msg_mono s" for s
    using assms unfolding main_runtime_def
    by (auto simp: bind_prog_def shutil_which_def fail_apply)
  define T :: "(path \<times> arg list) prog" where "T =
     bind_prog (main_root w) (\<lambda>vcpkg_root.
     bind_prog (main_bootstrap w vcpkg_root) (\<lambda>vcpkg_exe. fail w msg_mono))"
  have tools: "main_tools w = T"
    unfolding main_tools_def T_def by (simp only: rt)
  have "confined (\<lambda>c. Str ''fetch'' \<notin> set (argv c)) {} T"
    unfolding T_def main_root_def main_bootstrap_def Let_def
    by (auto split: option.split intro!: confined_bind confined_intros)
  then obtain evs where t: "trace (snd (T init)) = trace init @ evs"
    and p: "list_all (\<lambda>c. Str ''fetch'' \<notin> set (argv c)) (commands_of evs)"
    unfolding confined_def by blast
  have "\<exists>e s2. T init = (Inl e, s2)"
    unfolding T_def
    by (intro bind_prog_fails) (simp add: fail_apply)
  then obtain e s2 where f: "T init = (Inl e, s2)" by blast
  with tools have m: "main w init = (Inl e, s2)" by (simp add: main_tools_fails)
  from m have "exit_code (fst (main w init)) = 1"
    using main_exit_code[of w] by simp
  moreover from m f t p
  have "list_all (\<lambda>c. Str ''fetch'' \<notin> set (argv c)) (commands_of (trace (snd (main w init))))"
    by (simp add: init_def)
  ultimately show ?thesis using rt'[of s] by (simp add: fail_apply)
qed

theorem no_runtime_no_fetch_witness:
  "platform w_no_mono \<noteq> ''win32''
   \<and> (\<forall>h. \<not> truthy (which w_no_mono h ''mono''))
   \<and> exit_code (fst (main w_no_mono init)) = 1
   \<and> list_all (\<lambda>c. Str ''fetch'' \<notin> set (argv c))
        (commands_of (trace (snd (main w_no_mono init))))
   \<and> main w_no_mono init =
       (Inl (SystemExit 1), init\<lparr>trace := [Stderr msg_mono, Stdout ''return 1'']\<rparr>)"
proof -
  have a: "platform w_no_mono \<noteq> ''win32''" by code_simp
  have b: "\<forall>h. \<not> truthy (which w_no_mono h ''mono'')"
    by (simp add: w_no_mono_def)
  have c: "main w_no_mono init =
       (Inl (SystemExit 1), init\<lparr>trace := [Stderr msg_mono, Stdout ''return 1'']\<rparr>)"
    by code_simp
  from no_runtime_no_fetch[OF a b] a b c show ?thesis by simp
qed

text \<open>
  C4. Once the user name and the token are validated, lines 90-109 start the NuGet client
  three times, in this order: \<open>sources add\<close>, \<open>sources update\<close>, \<open>setapikey\<close>. Whatever
  the exit status of \<open>sources add\<close>, the run goes on to \<open>sources update\<close>. A status
  other than 0 of \<open>sources update\<close> ends the run by \<open>CalledProcessError\<close> after two
  calls; a status other than 0 of \<open>setapikey\<close> ends it by \<open>CalledProcessError\<close> after
  three; with both 0 the three calls are all that lines 83-109 do besides storing
  \<open>VCPKG_BINARY_SOURCES\<close>.
\<close>

theorem primary_feed_calls:
  fixes nuget :: "arg list" and u t :: string and root :: path and s :: state
    and add upd key :: command and s' :: state
  defines "add \<equiv> sources_command nuget ''add'' (feed_url u) ''GitHub'' u t root"
    and "upd \<equiv> sources_command nuget ''update'' (feed_url u) ''GitHub'' u t root"
    and "key \<equiv> setapikey_command nuget t (feed_url u) root"
    and "s' \<equiv> s\<lparr>export_env := dict_set ''VCPKG_BINARY_SOURCES'' binary_sources (export_env s)\<rparr>"
  assumes tools: "main_tools w init = (Inr (root, nuget), s)"
    and creds: "main_credentials w s = (Inr (u, t), s)"
    and add: "exec w (trace s) add = Exited rc_add out_add"
    and upd: "exec w (trace s @ [Exec add]) upd = Exited rc_upd out_upd"
  shows "(rc_upd \<noteq> 0 \<longrightarrow>
            main w init =
              (Inl (CalledProcessError rc_upd upd), s'\<lparr>trace := trace s @ [Exec add, Exec upd]\<rparr>))
       \<and> (rc_upd = 0 \<and> exec w (trace s @ [Exec add, Exec upd]) key = Exited rc_key out_key \<longrightarrow>
            (rc_key \<noteq> 0 \<longrightarrow>
               main w init =
                 (Inl (CalledProcessError rc_key key),
                  s'\<lparr>trace := trace s @ [Exec add, Exec upd, Exec key]\<rparr>))
          \<and> (rc_key = 0 \<longrightarrow>
               main_primary_feed w root nuget u t s =
                 (Inr (), s'\<lparr>trace := trace s @ [Exec add, Exec upd, Exec key]\<rparr>)))"
proof -
  note m = main_after_credentials[OF tools creds]
  have fatal_upd: "main_primary_feed w root nuget u t s =
      (Inl (CalledProcessError rc_upd upd), s'\<lparr>trace := trace s @ [Exec add, Exec upd]\<rparr>)"
    if "rc_upd \<noteq> 0"
    using that add upd unfolding main_primary_feed_def Let_def add_def upd_def s'_def
    by (simp add: bind_prog_def export_set_def subprocess_run_def check_call_def
        raise_prog_def return_prog_def)
  have rest: "main_primary_feed w root nuget u t s =
      (if rc_key \<noteq> 0 then Inl (CalledProcessError rc_key key) else Inr (),
       s'\<lparr>trace := trace s @ [Exec add, Exec upd, Exec key]\<rparr>)"
    if "rc_upd = 0" and "exec w (trace s @ [Exec add, Exec upd]) key = Exited rc_key out_key"
    using that add upd unfolding main_primary_feed_def Let_def add_def upd_def key_def s'_def
    by (simp add: bind_prog_def export_set_def subprocess_run_def check_call_def
        raise_prog_def return_prog_def)
  show ?thesis
    using fatal_upd rest unfolding m by (auto simp: bind_prog_def)
qed

theorem primary_feed_calls_witness:
  "main_tools w_add_fails init = (Inr (Path ''/opt/vcpkg'', nuget_linux), after_fetch)
   \<and> main_credentials w_add_fails after_fetch = (Inr (''alice'', ''t0k''), after_fetch)
   \<and> exec w_add_fails (trace after_fetch)
        (sources_command nuget_linux ''add'' (feed_url ''alice'') ''GitHub'' ''alice'' ''t0k''
           (Path ''/opt/vcpkg'')) = Exited 1 []
   \<and> main_primary_feed w_add_fails (Path ''/opt/vcpkg'') nuget_linux ''alice'' ''t0k'' after_fetch
       = (Inr (), after_setapikey)
   \<and> main_tools w_update_fails init = (Inr (Path ''/opt/vcpkg'', nuget_linux), after_fetch)
   \<and> main w_update_fails init =
       (Inl (CalledProcessError 1
          (sources_command nuget_linux ''update'' (feed_url ''alice'') ''GitHub'' ''alice'' ''t0k''
             (Path ''/opt/vcpkg''))),
        after_setapikey\<lparr>trace := butlast (trace after_setapikey)\<rparr>)"
proof -
  have a: "main_tools w_add_fails init = (Inr (Path ''/opt/vcpkg'', nuget_linux), after_fetch)"
    by code_simp
  have b: "main_credentials w_add_fails after_fetch = (Inr (''alice'', ''t0k''), after_fetch)"
    by code_simp
  have c: "exec w_add_fails (trace after_fetch)
        (sources_command nuget_linux ''add'' (feed_url ''alice'') ''GitHub'' ''alice'' ''t0k''
           (Path ''/opt/vcpkg'')) = Exited 1 []"
    by code_simp
  have d: "exec w_add_fails (trace after_fetch @
          [Exec (sources_command nuget_linux ''add'' (feed_url ''alice'') ''GitHub'' ''alice''
                   ''t0k'' (Path ''/opt/vcpkg''))])
        (sources_command nuget_linux ''update'' (feed_url ''alice'') ''GitHub'' ''alice'' ''t0k''
           (Path ''/opt/vcpkg'')) = Exited 0 nuget_path_line"
    by code_simp
  have e: "exec w_add_fails (trace after_fetch @
          [Exec (sources_command nuget_linux ''add'' (feed_url ''alice'') ''GitHub'' ''alice''
                   ''t0k'' (Path ''/opt/vcpkg'')),
           Exec (sources_command nuget_linux ''update'' (feed_url ''alice'') ''GitHub'' ''alice''
                   ''t0k'' (Path ''/opt/vcpkg''))])
        (setapikey_command nuget_linux ''t0k'' (feed_url ''alice'') (Path ''/opt/vcpkg''))
        = Exited 0 nuget_path_line"
    by code_simp
  have st: "after_fetch\<lparr>export_env :=
          dict_set ''VCPKG_BINARY_SOURCES'' binary_sources (export_env after_fetch),
        trace := trace after_fetch @
          [Exec (sources_command nuget_linux ''add'' (feed_url ''alice'') ''GitHub'' ''alice''
                   ''t0k'' (Path ''/opt/vcpkg'')),
           Exec (sources_command nuget_linux ''update'' (feed_url ''alice'') ''GitHub'' ''alice''
                   ''t0k'' (Path ''/opt/vcpkg'')),
           Exec (setapikey_command nuget_linux ''t0k'' (feed_url ''alice'')
                   (Path ''/opt/vcpkg''))]\<rparr> = after_setapikey"
    by code_simp
  have a2: "main_tools w_update_fails init = (Inr (Path ''/opt/vcpkg'', nuget_linux), after_fetch)"
    by code_simp
  have b2: "main_credentials w_update_fails after_fetch = (Inr (''alice'', ''t0k''), after_fetch)"
    by code_simp
  have c2: "exec w_update_fails (trace after_fetch)
        (sources_command nuget_linux ''add'' (feed_url ''alice'') ''GitHub'' ''alice'' ''t0k''
           (Path ''/opt/vcpkg'')) = Exited 0 nuget_path_line"
    by code_simp
  have d2: "exec w_update_fails (trace after_fetch @
          [Exec (sources_command nuget_linux ''add'' (feed_url ''alice'') ''GitHub'' ''alice''
                   ''t0k'' (Path ''/opt/vcpkg''))])
        (sources_command nuget_linux ''update'' (feed_url ''alice'') ''GitHub'' ''alice'' ''t0k''
           (Path ''/opt/vcpkg'')) = Exited 1 []"
    by code_simp
  have st2: "after_fetch\<lparr>export_env :=
          dict_set ''VCPKG_BINARY_SOURCES'' binary_sources (export_env after_fetch),
        trace := trace after_fetch @
          [Exec (sources_command nuget_linux ''add'' (feed_url ''alice'') ''GitHub'' ''alice''
                   ''t0k'' (Path ''/opt/vcpkg'')),
           Exec (sources_command nuget_linux ''update'' (feed_url ''alice'') ''GitHub'' ''alice''
                   ''t0k'' (Path ''/opt/vcpkg''))]\<rparr>
       = after_setapikey\<lparr>trace := butlast (trace after_setapikey)\<rparr>"
    by code_simp
  from primary_feed_calls[OF a b c d, where rc_key = 0 and out_key = nuget_path_line] e st
  have p: "main_primary_feed w_add_fails (Path ''/opt/vcpkg'') nuget_linux ''alice'' ''t0k''
             after_fetch = (Inr (), after_setapikey)"
    by simp
  from primary_feed_calls[OF a2 b2 c2 d2] st2
  have q: "main w_update_fails init =
       (Inl (CalledProcessError 1
          (sources_command nuget_linux ''update'' (feed_url ''alice'') ''GitHub'' ''alice'' ''t0k''
             (Path ''/opt/vcpkg''))),
        after_setapikey\<lparr>trace := butlast (trace after_setapikey)\<rparr>)"
    by simp
  from a b c p a2 q show ?thesis by simp
qed

text \<open>
  C5. A missing required variable (unset or empty; for the root directory, unset with no
  fallback) ends the run with exit status 1, whatever else happens. With neither root
  variable the run is \<open>fail\<close> with the message naming \<open>VCPKG_ROOT\<close>. When the run comes
  to the check of the user name, of the token, or of the owner of the read-only feed
  (its token being given), and the value is missing, the run ends in \<open>fail\<close> there: the
  diagnostic is the message naming that variable, followed by the shell statement.
\<close>

theorem missing_variable_diagnostics:
  "(environ w ''VCPKG_ROOT'' = None \<and> environ w ''VCPKG_INSTALLATION_ROOT'' = None \<longrightarrow>
      main w init =
        (Inl (SystemExit 1), init\<lparr>trace := [Stderr msg_root, Stdout (fail_statement w)]\<rparr>))
   \<and> (main_tools w init = (Inr (root, nuget), s) \<and> \<not> truthy (environ w ''VCPKG_NUGET_USER'') \<longrightarrow>
      main w init =
        (Inl (SystemExit 1),
         s\<lparr>trace := trace s @ [Stderr msg_user, Stdout (fail_statement w)]\<rparr>))
   \<and> (main_tools w init = (Inr (root, nuget), s) \<and> truthy (environ w ''VCPKG_NUGET_USER'') \<and>
       \<not> truthy (environ w ''VCPKG_NUGET_TOKEN'') \<longrightarrow>
      main w init =
        (Inl (SystemExit 1),
         s\<lparr>trace := trace s @ [Stderr msg_token, Stdout (fail_statement w)]\<rparr>))
   \<and> (main_tools w init = (Inr (root, nuget), s) \<and>
       main_credentials w s = (Inr (u, t), s) \<and>
       main_primary_feed w root nuget u t s = (Inr (), s2) \<and>
       truthy (environ w ''VCPKG_PRIMARY_NUGET_TOKEN'') \<and>
       \<not> truthy (environ w ''VCPKG_PRIMARY_NUGET_OWNER'') \<longrightarrow>
      main w init =
        (Inl (SystemExit 1),
         s2\<lparr>trace := trace s2 @ [Stderr msg_owner, Stdout (fail_statement w)]\<rparr>))
   \<and> (environ w ''VCPKG_ROOT'' = None \<and> environ w ''VCPKG_INSTALLATION_ROOT'' = None
       \<or> \<not> truthy (environ w ''VCPKG_NUGET_USER'') \<or> \<not> truthy (environ w ''VCPKG_NUGET_TOKEN'')
       \<or> truthy (environ w ''VCPKG_PRIMARY_NUGET_TOKEN'') \<and>
          \<not> truthy (environ w ''VCPKG_PRIMARY_NUGET_OWNER'') \<longrightarrow>
      exit_code (fst (main w init)) = 1)
   \<and> sublist ''VCPKG_ROOT'' msg_root \<and> sublist ''VCPKG_NUGET_USER'' msg_user
   \<and> sublist ''VCPKG_NUGET_TOKEN'' msg_token \<and> sublist ''VCPKG_PRIMARY_NUGET_OWNER'' msg_owner"
proof -
  have root: "main w init =
        (Inl (SystemExit 1), init\<lparr>trace := [Stderr msg_root, Stdout (fail_statement w)]\<rparr>)"
    if "environ w ''VCPKG_ROOT'' = None \<and> environ w ''VCPKG_INSTALLATION_ROOT'' = None"
  proof -
    from that have "main_root w init =
        (Inl (SystemExit 1), init\<lparr>trace := [Stderr msg_root, Stdout (fail_statement w)]\<rparr>)"
      by (simp add: main_root_apply fail_apply init_def)
    then have "main_tools w init =
        (Inl (SystemExit 1), init\<lparr>trace := [Stderr msg_root, Stdout (fail_statement w)]\<rparr>)"
      unfolding main_tools_def by (rule bind_prog_Inl)
    then show ?thesis by (rule main_tools_fails)
  qed
  have user: "main w init =
        (Inl (SystemExit 1), s\<lparr>trace := trace s @ [Stderr msg_user, Stdout (fail_statement w)]\<rparr>)"
    if "main_tools w init = (Inr (root, nuget), s) \<and> \<not> truthy (environ w ''VCPKG_NUGET_USER'')"
    using that
    by (simp add: main_after_tools bind_prog_def main_credentials_no_user fail_apply)
  have token: "main w init =
        (Inl (SystemExit 1), s\<lparr>trace := trace s @ [Stderr msg_token, Stdout (fail_statement w)]\<rparr>)"
    if "main_tools w init = (Inr (root, nuget), s) \<and> truthy (environ w ''VCPKG_NUGET_USER'') \<and>
       \<not> truthy (environ w ''VCPKG_NUGET_TOKEN'')"
    using that
    by (simp add: main_after_tools bind_prog_def main_credentials_no_token fail_apply)
  have names: "sublist ''VCPKG_ROOT'' msg_root \<and> sublist ''VCPKG_NUGET_USER'' msg_user
   \<and> sublist ''VCPKG_NUGET_TOKEN'' msg_token \<and> sublist ''VCPKG_PRIMARY_NUGET_OWNER'' msg_owner"
    by code_simp
  from root user token names main_owner_missing main_fails_unvalidated[of w]
  show ?thesis by blast
qed

theorem missing_variable_diagnostics_witness:
  "main w_no_root init =
     (Inl (SystemExit 1), init\<lparr>trace := [Stderr msg_root, Stdout ''return 1'']\<rparr>)
   \<and> main_tools w_no_user init = (Inr (Path ''/opt/vcpkg'', nuget_linux), after_fetch)
   \<and> main w_no_user init =
       (Inl (SystemExit 1),
        after_fetch\<lparr>trace := trace after_fetch @ [Stderr msg_user, Stdout ''return 1'']\<rparr>)
   \<and> main_tools w_no_token init = (Inr (Path ''/opt/vcpkg'', nuget_linux), after_fetch)
   \<and> main w_no_token init =
       (Inl (SystemExit 1),
        after_fetch\<lparr>trace := trace after_fetch @ [Stderr msg_token, Stdout ''return 1'']\<rparr>)
   \<and> main_primary_feed w_no_owner (Path ''/opt/vcpkg'') nuget_linux ''alice'' ''t0k'' after_fetch
       = (Inr (), after_setapikey)
   \<and> main w_no_owner init =
       (Inl (SystemExit 1),
        after_setapikey\<lparr>trace := trace after_setapikey @
          [Stderr msg_owner, Stdout ''return 1'']\<rparr>)
   \<and> exit_code (fst (main w_no_owner init)) = 1"
proof -
  have r: "environ w_no_root ''VCPKG_ROOT'' = None \<and>
           environ w_no_root ''VCPKG_INSTALLATION_ROOT'' = None"
    by code_simp
  have fs: "fail_statement w_no_root = ''return 1''" "fail_statement w_no_user = ''return 1''"
    "fail_statement w_no_token = ''return 1''" "fail_statement w_no_owner = ''return 1''"
    by code_simp+
  have u1: "main_tools w_no_user init = (Inr (Path ''/opt/vcpkg'', nuget_linux), after_fetch)"
    by code_simp
  have u2: "\<not> truthy (environ w_no_user ''VCPKG_NUGET_USER'')" by code_simp
  have t1: "main_tools w_no_token init = (Inr (Path ''/opt/vcpkg'', nuget_linux), after_fetch)"
    by code_simp
  have t2: "truthy (environ w_no_token ''VCPKG_NUGET_USER'')" by code_simp
  have t3: "\<not> truthy (environ w_no_token ''VCPKG_NUGET_TOKEN'')" by code_simp
  have o1: "main_tools w_no_owner init = (Inr (Path ''/opt/vcpkg'', nuget_linux), after_fetch)"
    by code_simp
  have o2: "main_credentials w_no_owner after_fetch = (Inr (''alice'', ''t0k''), after_fetch)"
    by code_simp
  have o3: "main_primary_feed w_no_owner (Path ''/opt/vcpkg'') nuget_linux ''alice'' ''t0k''
              after_fetch = (Inr (), after_setapikey)"
    by code_simp
  have o4: "truthy (environ w_no_owner ''VCPKG_PRIMARY_NUGET_TOKEN'')" by code_simp
  have o5: "\<not> truthy (environ w_no_owner ''VCPKG_PRIMARY_NUGET_OWNER'')" by code_simp
  from missing_variable_diagnostics[of w_no_root] r fs(1)
  have 1: "main w_no_root init =
     (Inl (SystemExit 1), init\<lparr>trace := [Stderr msg_root, Stdout ''return 1'']\<rparr>)"
    by simp
  from missing_variable_diagnostics[of w_no_user "Path ''/opt/vcpkg''" nuget_linux after_fetch]
    u1 u2 fs(2)
  have 2: "main w_no_user init =
       (Inl (SystemExit 1),
        after_fetch\<lparr>trace := trace after_fetch @ [Stderr msg_user, Stdout ''return 1'']\<rparr>)"
    by simp
  from missing_variable_diagnostics[of w_no_token "Path ''/opt/vcpkg''" nuget_linux after_fetch]
    t1 t2 t3 fs(3)
  have 3: "main w_no_token init =
       (Inl (SystemExit 1),
        after_fetch\<lparr>trace := trace after_fetch @ [Stderr msg_token, Stdout ''return 1'']\<rparr>)"
    by simp
  from missing_variable_diagnostics[of w_no_owner "Path ''/opt/vcpkg''" nuget_linux after_fetch
      "''alice''" "''t0k''" after_setapikey] o1 o2 o3 o4 o5 fs(4)
  have 4: "main w_no_owner init =
       (Inl (SystemExit 1),
        after_setapikey\<lparr>trace := trace after_setapikey @
          [Stderr msg_owner, Stdout ''return 1'']\<rparr>)
     \<and> exit_code (fst (main w_no_owner init)) = 1"
    by simp
  from 1 u1 2 t1 3 o3 4 show ?thesis by simp
qed

text \<open>
  C8. With a token for the read-only feed and no owner (unset, or empty), lines 112-118
  end in \<open>fail\<close> from any state, starting no command; the run exits with status 1; and
  when the run has registered the feed of the user, it ends right there, in \<open>fail\<close> with
  the message naming the owner variable.
\<close>

theorem owner_missing_fails_first:
  assumes "truthy (environ w ''VCPKG_PRIMARY_NUGET_TOKEN'')"
    and "\<not> truthy (environ w ''VCPKG_PRIMARY_NUGET_OWNER'')"
  shows "main_secondary_feed w root nuget u s =
           (Inl (SystemExit 1),
            s\<lparr>trace := trace s @ [Stderr msg_owner, Stdout (fail_statement w)]\<rparr>)
       \<and> exit_code (fst (main w init)) = 1
       \<and> (main_tools w init = (Inr (root, nuget), s) \<and>
          main_credentials w s = (Inr (u, t), s) \<and>
          main_primary_feed w root nuget u t s = (Inr (), s2) \<longrightarrow>
            main w init =
              (Inl (SystemExit 1),
               s2\<lparr>trace := trace s2 @ [Stderr msg_owner, Stdout (fail_statement w)]\<rparr>))"
  using assms main_owner_missing[OF _ _ _ assms] main_fails_unvalidated[of w]
  by (simp add: main_secondary_feed_no_owner fail_apply)

theorem owner_missing_fails_first_witness:
  "truthy (environ w_no_owner ''VCPKG_PRIMARY_NUGET_TOKEN'')
   \<and> environ w_no_owner ''VCPKG_PRIMARY_NUGET_OWNER'' = None
   \<and> main_secondary_feed w_no_owner (Path ''/opt/vcpkg'') nuget_linux ''alice'' after_setapikey =
       (Inl (SystemExit 1),
        after_setapikey\<lparr>trace := trace after_setapikey @
          [Stderr msg_owner, Stdout ''return 1'']\<rparr>)
   \<and> main w_no_owner init =
       (Inl (SystemExit 1),
        after_setapikey\<lparr>trace := trace after_setapikey @
          [Stderr msg_owner, Stdout ''return 1'']\<rparr>)
   \<and> commands_of (trace (snd (main w_no_owner init))) = commands_of (trace after_setapikey)"
proof -
  have a: "truthy (environ w_no_owner ''VCPKG_PRIMARY_NUGET_TOKEN'')" by code_simp
  have b: "environ w_no_owner ''VCPKG_PRIMARY_NUGET_OWNER'' = None" by code_simp
  then have b': "\<not> truthy (environ w_no_owner ''VCPKG_PRIMARY_NUGET_OWNER'')" by simp
  have fs: "fail_statement w_no_owner = ''return 1''" by code_simp
  have o1: "main_tools w_no_owner init = (Inr (Path ''/opt/vcpkg'', nuget_linux), after_fetch)"
    by code_simp
  have o2: "main_credentials w_no_owner after_fetch = (Inr (''alice'', ''t0k''), after_fetch)"
    by code_simp
  have o3: "main_primary_feed w_no_owner (Path ''/opt/vcpkg'') nuget_linux ''alice'' ''t0k''
              after_fetch = (Inr (), after_setapikey)"
    by code_simp
  from owner_missing_fails_first[OF a b', of "Path ''/opt/vcpkg''" nuget_linux "''alice''"
      after_setapikey]
  have 1: "main_secondary_feed w_no_owner (Path ''/opt/vcpkg'') nuget_linux ''alice''
       after_setapikey =
       (Inl (SystemExit 1),
        after_setapikey\<lparr>trace := trace after_setapikey @
          [Stderr msg_owner, Stdout ''return 1'']\<rparr>)"
    by (simp add: fs)
  from owner_missing_fails_first[OF a b', of "Path ''/opt/vcpkg''" nuget_linux "''alice''"
      after_fetch "''t0k''" after_setapikey] o1 o2 o3
  have 2: "main w_no_owner init =
       (Inl (SystemExit 1),
        after_setapikey\<lparr>trace := trace after_setapikey @
          [Stderr msg_owner, Stdout ''return 1'']\<rparr>)"
    by (simp add: fs)
  from a b 1 2 show ?thesis by (simp add: commands_of_append)
qed

text \<open>
  C7 (amended). When the owner of the read-only feed is the user: with a token for that
  feed, lines 112-124 start no command, log the message that the feed is not used and
  leave \<open>export_env\<close> as it is; without a token they do nothing at all, so nothing is
  logged. Either way \<open>VCPKG_BINARY_SOURCES\<close> stays the fixed string that lines 83-85 have
  stored.
\<close>

theorem same_owner_skips_secondary_feed:
  assumes "environ w ''VCPKG_PRIMARY_NUGET_OWNER'' = Some u" and "u \<noteq> []"
  shows "(truthy (environ w ''VCPKG_PRIMARY_NUGET_TOKEN'') \<longrightarrow>
            main_secondary_feed w root nuget u s =
              (Inr (), s\<lparr>trace := trace s @ [Stderr msg_same_feed]\<rparr>))
       \<and> (\<not> truthy (environ w ''VCPKG_PRIMARY_NUGET_TOKEN'') \<longrightarrow>
            main_secondary_feed w root nuget u s = (Inr (), s))
       \<and> (main_primary_feed w root nuget u t s_before = (Inr (), s) \<longrightarrow>
            map_of (export_env (snd (main_secondary_feed w root nuget u s)))
              ''VCPKG_BINARY_SOURCES'' = Some binary_sources)"
proof -
  have a: "main_secondary_feed w root nuget u s =
              (Inr (), s\<lparr>trace := trace s @ [Stderr msg_same_feed]\<rparr>)"
    if "truthy (environ w ''VCPKG_PRIMARY_NUGET_TOKEN'')"
    using main_secondary_feed_same_owner[OF that assms] .
  have b: "main_secondary_feed w root nuget u s = (Inr (), s)"
    if "\<not> truthy (environ w ''VCPKG_PRIMARY_NUGET_TOKEN'')"
    using main_secondary_feed_no_token[OF that] .
  have c: "map_of (export_env (snd (main_secondary_feed w root nuget u s)))
              ''VCPKG_BINARY_SOURCES'' = Some binary_sources"
    if "main_primary_feed w root nuget u t s_before = (Inr (), s)"
  proof -
    from main_primary_feed_returns[OF that]
    have "map_of (export_env s) ''VCPKG_BINARY_SOURCES'' = Some binary_sources"
      by (simp add: map_of_dict_set)
    with a b show ?thesis
      by (cases "truthy (environ w ''VCPKG_PRIMARY_NUGET_TOKEN'')") simp_all
  qed
  from a b c show ?thesis by blast
qed

theorem same_owner_skips_secondary_feed_witness:
  "environ w_same_owner ''VCPKG_PRIMARY_NUGET_OWNER'' = Some ''alice''
   \<and> truthy (environ w_same_owner ''VCPKG_PRIMARY_NUGET_TOKEN'')
   \<and> main_primary_feed w_same_owner (Path ''/opt/vcpkg'') nuget_linux ''alice'' ''t0k'' after_fetch
       = (Inr (), after_setapikey)
   \<and> main_secondary_feed w_same_owner (Path ''/opt/vcpkg'') nuget_linux ''alice'' after_setapikey
       = (Inr (), after_setapikey\<lparr>trace := trace after_setapikey @ [Stderr msg_same_feed]\<rparr>)
   \<and> map_of (export_env (snd (main_secondary_feed w_same_owner (Path ''/opt/vcpkg'')
        nuget_linux ''alice'' after_setapikey))) ''VCPKG_BINARY_SOURCES'' = Some binary_sources
   \<and> \<not> truthy (environ w_same_owner_no_token ''VCPKG_PRIMARY_NUGET_TOKEN'')
   \<and> environ w_same_owner_no_token ''VCPKG_PRIMARY_NUGET_OWNER'' = Some ''alice''
   \<and> main_secondary_feed w_same_owner_no_token (Path ''/opt/vcpkg'') nuget_linux ''alice''
        after_setapikey = (Inr (), after_setapikey)
   \<and> stdout_of (trace (snd (main w_same_owner init))) =
       [export_line w_same_owner ''VCPKG_BINARY_SOURCES'' binary_sources]"
proof -
  have a: "environ w_same_owner ''VCPKG_PRIMARY_NUGET_OWNER'' = Some ''alice''" by code_simp
  have b: "truthy (environ w_same_owner ''VCPKG_PRIMARY_NUGET_TOKEN'')" by code_simp
  have c: "main_primary_feed w_same_owner (Path ''/opt/vcpkg'') nuget_linux ''alice'' ''t0k''
             after_fetch = (Inr (), after_setapikey)"
    by code_simp
  have d: "\<not> truthy (environ w_same_owner_no_token ''VCPKG_PRIMARY_NUGET_TOKEN'')" by code_simp
  have e: "environ w_same_owner_no_token ''VCPKG_PRIMARY_NUGET_OWNER'' = Some ''alice''"
    by code_simp
  have f: "stdout_of (trace (snd (main w_same_owner init))) =
       [export_line w_same_owner ''VCPKG_BINARY_SOURCES'' binary_sources]"
    by code_simp
  have ne: "''alice'' \<noteq> []" by simp
  from same_owner_skips_secondary_feed[OF a ne, where root = "Path ''/opt/vcpkg''"
      and nuget = nuget_linux and s = after_setapikey and t = "''t0k''"
      and s_before = after_fetch] b c
  have 1: "main_secondary_feed w_same_owner (Path ''/opt/vcpkg'') nuget_linux ''alice''
        after_setapikey
       = (Inr (), after_setapikey\<lparr>trace := trace after_setapikey @ [Stderr msg_same_feed]\<rparr>)
     \<and> map_of (export_env (snd (main_secondary_feed w_same_owner (Path ''/opt/vcpkg'')
        nuget_linux ''alice'' after_setapikey))) ''VCPKG_BINARY_SOURCES'' = Some binary_sources"
    by blast
  from same_owner_skips_secondary_feed[OF e ne, where root = "Path ''/opt/vcpkg''"
      and nuget = nuget_linux and s = after_setapikey] d
  have 2: "main_secondary_feed w_same_owner_no_token (Path ''/opt/vcpkg'') nuget_linux ''alice''
        after_setapikey = (Inr (), after_setapikey)"
    by simp
  from 1 2 a b c d e f show ?thesis by blast
qed

text \<open>
  C7, as stated, fails when no token for the read-only feed is given: the owner variable
  equals the user name, the run succeeds, and no message is logged.
\<close>

theorem same_owner_without_token_logs_nothing:
  "environ w_same_owner_no_token ''VCPKG_PRIMARY_NUGET_OWNER'' = Some ''alice''
   \<and> environ w_same_owner_no_token ''VCPKG_NUGET_USER'' = Some ''alice''
   \<and> fst (main w_same_owner_no_token init) = Inr ()
   \<and> stderr_of (trace (snd (main w_same_owner_no_token init))) = []"
  by code_simp

text \<open>
  C10. When the run comes to the \<open>fetch\<close> call and the call exits with status 0:
  \<open>splitlines\<close> gives no line exactly for the empty output; on the empty output the run
  ends by \<open>IndexError\<close>, the \<open>fetch\<close> call being its last event, with nothing printed on
  standard output nor on the error stream by the script; on any other output lines 69-72
  return the command line extended by the last line.
\<close>

theorem empty_fetch_output_raises:
  assumes "main_root w init = (Inr root, s1)"
    and "main_bootstrap w root s1 = (Inr exe, s2)"
    and "main_runtime w s2 = (Inr runtime, s3)"
    and "exec w (trace s3) (fetch_command root exe) = Exited 0 out"
  shows "(splitlines out = [] \<longleftrightarrow> out = [])
       \<and> (out = [] \<longrightarrow>
            main w init =
              (Inl IndexError, s3\<lparr>trace := trace s3 @ [Exec (fetch_command root exe)]\<rparr>)
          \<and> stdout_of (trace s3 @ [Exec (fetch_command root exe)]) = []
          \<and> stderr_of (trace s3 @ [Exec (fetch_command root exe)]) = [])
       \<and> (out \<noteq> [] \<longrightarrow>
            main_fetch w root exe runtime s3 =
              (Inr (runtime @ [Str (last (splitlines out))]),
               s3\<lparr>trace := trace s3 @ [Exec (fetch_command root exe)]\<rparr>))"
proof -
  have fetch: "main_fetch w root exe runtime s3 =
      (if out = [] then Inl IndexError else Inr (runtime @ [Str (last (splitlines out))]),
       s3\<lparr>trace := trace s3 @ [Exec (fetch_command root exe)]\<rparr>)"
    using assms(4) unfolding main_fetch_def
    by (auto simp: bind_prog_def check_output_def subprocess_run_def return_prog_def
        raise_prog_def splitlines_Nil splitlines_empty split: list.splits)
  have tools: "main_tools w init =
      (Inl IndexError, s3\<lparr>trace := trace s3 @ [Exec (fetch_command root exe)]\<rparr>)"
    if "out = []"
    unfolding main_tools_def using assms(1,2,3) fetch that by (simp add: bind_prog_def)
  from assms(1) have t1: "trace s1 = []"
    by (auto simp: main_root_apply fail_apply init_def split: option.splits)
  from assms(2) have t2: "trace s2 = trace s1 \<or>
      trace s2 = trace s1 @
        [Exec (Command [PathArg (Div root (''bootstrap-vcpkg'' @ script_suffix w))] root)]"
    unfolding main_bootstrap_def Let_def
    by (auto simp: bind_prog_def exists_path_def fail_apply check_call_def subprocess_run_def
        return_prog_def raise_prog_def split: if_splits proc_result.splits)
  from assms(3) have t3: "s3 = s2" by (rule main_runtime_returns)
  from t1 t2 t3 have quiet: "stdout_of (trace s3) = [] \<and> stderr_of (trace s3) = []" by auto
  from fetch tools quiet show ?thesis
    by (auto simp: splitlines_Nil main_tools_fails stdout_of_append stderr_of_append)
qed

theorem empty_fetch_output_raises_witness:
  "main_root w_empty_fetch init = (Inr (Path ''/opt/vcpkg''), init)
   \<and> main_bootstrap w_empty_fetch (Path ''/opt/vcpkg'') init =
       (Inr (Div (Path ''/opt/vcpkg'') ''vcpkg''), init)
   \<and> main_runtime w_empty_fetch init = (Inr [Str ''mono''], init)
   \<and> exec w_empty_fetch (trace init)
       (fetch_command (Path ''/opt/vcpkg'') (Div (Path ''/opt/vcpkg'') ''vcpkg'')) = Exited 0 []
   \<and> main w_empty_fetch init = (Inl IndexError, after_fetch)
   \<and> stdout_of (trace after_fetch) = [] \<and> stderr_of (trace after_fetch) = []
   \<and> exec w_linux (trace init)
       (fetch_command (Path ''/opt/vcpkg'') (Div (Path ''/opt/vcpkg'') ''vcpkg''))
       = Exited 0 nuget_path_line
   \<and> main_fetch w_linux (Path ''/opt/vcpkg'') (Div (Path ''/opt/vcpkg'') ''vcpkg'')
       [Str ''mono''] init = (Inr nuget_linux, after_fetch)"
proof -
  have a: "main_root w_empty_fetch init = (Inr (Path ''/opt/vcpkg''), init)" by code_simp
  have b: "main_bootstrap w_empty_fetch (Path ''/opt/vcpkg'') init =
       (Inr (Div (Path ''/opt/vcpkg'') ''vcpkg''), init)" by code_simp
  have c: "main_runtime w_empty_fetch init = (Inr [Str ''mono''], init)" by code_simp
  have d: "exec w_empty_fetch (trace init)
       (fetch_command (Path ''/opt/vcpkg'') (Div (Path ''/opt/vcpkg'') ''vcpkg'')) = Exited 0 []"
    by code_simp
  have a2: "main_root w_linux init = (Inr (Path ''/opt/vcpkg''), init)" by code_simp
  have b2: "main_bootstrap w_linux (Path ''/opt/vcpkg'') init =
       (Inr (Div (Path ''/opt/vcpkg'') ''vcpkg''), init)" by code_simp
  have c2: "main_runtime w_linux init = (Inr [Str ''mono''], init)" by code_simp
  have d2: "exec w_linux (trace init)
       (fetch_command (Path ''/opt/vcpkg'') (Div (Path ''/opt/vcpkg'') ''vcpkg''))
       = Exited 0 nuget_path_line"
    by code_simp
  have st: "init\<lparr>trace := trace init @
      [Exec (fetch_command (Path ''/opt/vcpkg'') (Div (Path ''/opt/vcpkg'') ''vcpkg''))]\<rparr>
      = after_fetch"
    by code_simp
  have ne: "nuget_path_line \<noteq> []" by code_simp
  have l: "[Str ''mono''] @ [Str (last (splitlines nuget_path_line))] = nuget_linux"
    by code_simp
  have q: "stdout_of (trace after_fetch) = [] \<and> stderr_of (trace after_fetch) = []"
    by code_simp
  from empty_fetch_output_raises[OF a b c d] st q
  have 1: "main w_empty_fetch init = (Inl IndexError, after_fetch)
     \<and> stdout_of (trace after_fetch) = [] \<and> stderr_of (trace after_fetch) = []"
    by simp
  from empty_fetch_output_raises[OF a2 b2 c2 d2] st ne l
  have 2: "main_fetch w_linux (Path ''/opt/vcpkg'') (Div (Path ''/opt/vcpkg'') ''vcpkg'')
       [Str ''mono''] init = (Inr nuget_linux, after_fetch)"
    by simp
  from a b c d 1 d2 2 show ?thesis by simp
qed

end
